theory Spec2Isabelle
  imports Complex_Main "HOL-Library.Word"
begin

unbundle bit_operations_syntax

section \<open>Data model of the DAC8571 driver\<close>

text \<open>
  The driver (\<^verbatim>\<open>dac8571.c\<close>, \<^verbatim>\<open>dac8571.h\<close>) sits on top of the STM32 HAL, which is
  not part of the repository. The status type of the HAL has the four values that
  \<^verbatim>\<open>HAL_StatusToString\<close> enumerates.
\<close>

datatype HAL_StatusTypeDef = HAL_OK | HAL_ERROR | HAL_BUSY | HAL_TIMEOUT

text \<open>
  A pointer to the HAL's \<^verbatim>\<open>I2C_HandleTypeDef\<close> is an opaque reference; \<open>None\<close> is
  the null pointer.
\<close>

type_synonym I2C_ptr = "nat option"

text \<open>The constants of \<^verbatim>\<open>dac8571.h\<close>.\<close>

definition DAC8571_PD_LOW_POWER :: "8 word" where "DAC8571_PD_LOW_POWER = 0x00"
definition DAC8571_PD_FAST :: "8 word" where "DAC8571_PD_FAST = 0x01"
definition DAC8571_PD_1_KOHM :: "8 word" where "DAC8571_PD_1_KOHM = 0x02"
definition DAC8571_PD_100_KOHM :: "8 word" where "DAC8571_PD_100_KOHM = 0x03"
definition DAC8571_PD_HI_Z :: "8 word" where "DAC8571_PD_HI_Z = 0x04"

definition DAC8571_OK :: int where "DAC8571_OK = 0x00"
definition DAC8571_I2C_ERROR :: int where "DAC8571_I2C_ERROR = 0x81"
definition DAC8571_ADDRESS_ERROR :: int where "DAC8571_ADDRESS_ERROR = 0x82"
definition DAC8571_BUFFER_ERROR :: int where "DAC8571_BUFFER_ERROR = 0x83"

definition DAC8571_CMD_WRITE_TMP :: "8 word" where "DAC8571_CMD_WRITE_TMP = 0x00"
definition DAC8571_CMD_WRITE_TMP_PWDN :: "8 word" where "DAC8571_CMD_WRITE_TMP_PWDN = 0x01"
definition DAC8571_CMD_WRITE_AND_UPDATE_DAC :: "8 word" where
  "DAC8571_CMD_WRITE_AND_UPDATE_DAC = 0x10"
definition DAC8571_CMD_WRITE_UPDATE_PWDN :: "8 word" where
  "DAC8571_CMD_WRITE_UPDATE_PWDN = 0x11"
definition DAC8571_CMD_UPDATE_FROM_TMP :: "8 word" where "DAC8571_CMD_UPDATE_FROM_TMP = 0x20"
definition DAC8571_CMD_BROADCAST_WRITE_TMP :: "8 word" where
  "DAC8571_CMD_BROADCAST_WRITE_TMP = 0x30"
definition DAC8571_CMD_BROADCAST_WRITE_UPDATE :: "8 word" where
  "DAC8571_CMD_BROADCAST_WRITE_UPDATE = 0x31"
definition DAC8571_CMD_BROADCAST_PWDN_ALL :: "8 word" where
  "DAC8571_CMD_BROADCAST_PWDN_ALL = 0x33"

text \<open>
  The handle structure \<^verbatim>\<open>DAC8571_HandleTypeDef\<close>. The field \<open>lastError\<close> is a C
  \<^verbatim>\<open>int\<close> that only ever holds one of the four error constants, so it is an \<open>int\<close>.
\<close>

record DAC8571_HandleTypeDef =
  hi2c :: I2C_ptr
  address :: "16 word"
  lastValue :: "16 word"
  writeMode :: "8 word"
  lastError :: int

text \<open>
  A pointer to a handle is \<open>DAC8571_HandleTypeDef option\<close>: \<open>None\<close> is the null
  pointer, \<open>Some h\<close> a pointer to a structure whose content is \<open>h\<close>. Every driver
  function returns the content of the structure after the call next to its C result.
\<close>

section \<open>The I2C transaction provider\<close>

text \<open>
  The HAL functions the driver calls are parameters of the model. The state of
  everything behind the HAL (peripheral registers, the bus, the device, the clock) is a
  value of type \<open>'w\<close>; each HAL function takes it and returns it updated. A driver
  function that returns the state it was given has made no HAL call.
  \<^item> \<open>Master_Transmit w hi2c DevAddress pData Timeout\<close> is
    \<^verbatim>\<open>HAL_I2C_Master_Transmit\<close>; \<open>pData\<close> is the buffer, its length the \<^verbatim>\<open>Size\<close>.
  \<^item> \<open>Master_Receive w hi2c DevAddress Size Timeout\<close> is
    \<^verbatim>\<open>HAL_I2C_Master_Receive\<close>; it returns the bytes it has stored at the start of
    the caller's buffer.
  \<^item> \<open>IsDeviceReady w hi2c DevAddress Trials Timeout\<close> is \<^verbatim>\<open>HAL_I2C_IsDeviceReady\<close>.
  \<^item> \<open>Delay w ms\<close> is \<^verbatim>\<open>HAL_Delay\<close>.
  \<^item> \<open>Get_Flag_Busy\<close> and \<open>Clear_Flag_Busy\<close> are \<^verbatim>\<open>__HAL_I2C_GET_FLAG\<close> and
    \<^verbatim>\<open>__HAL_I2C_CLEAR_FLAG\<close> on \<^verbatim>\<open>I2C_FLAG_BUSY\<close>.
  The text that \<^verbatim>\<open>DEBUG_PRINT\<close> and \<^verbatim>\<open>printf\<close> send to the console is not modelled.
\<close>

record 'w HAL_I2C =
  Master_Transmit :: "'w \<Rightarrow> I2C_ptr \<Rightarrow> 16 word \<Rightarrow> 8 word list \<Rightarrow> 32 word \<Rightarrow> HAL_StatusTypeDef \<times> 'w"
  Master_Receive :: "'w \<Rightarrow> I2C_ptr \<Rightarrow> 16 word \<Rightarrow> 16 word \<Rightarrow> 32 word
    \<Rightarrow> HAL_StatusTypeDef \<times> 8 word list \<times> 'w"
  IsDeviceReady :: "'w \<Rightarrow> I2C_ptr \<Rightarrow> 16 word \<Rightarrow> 32 word \<Rightarrow> 32 word \<Rightarrow> HAL_StatusTypeDef \<times> 'w"
  Delay :: "'w \<Rightarrow> 32 word \<Rightarrow> 'w"
  Get_Flag_Busy :: "'w \<Rightarrow> I2C_ptr \<Rightarrow> bool"
  Clear_Flag_Busy :: "'w \<Rightarrow> I2C_ptr \<Rightarrow> 'w"

definition HAL_MAX_DELAY :: "32 word" where
  "HAL_MAX_DELAY = 0xFFFFFFFF"

section \<open>The driver functions\<close>

text \<open>
  \<^verbatim>\<open>DAC8571_Write\<close>: the frame is \<^verbatim>\<open>{writeMode, (uint8_t)(value >> 8),
  (uint8_t)(value & 0xFF)}\<close>, transmitted to \<^verbatim>\<open>address << 1\<close> with timeout 100.
\<close>

definition DAC8571_Write ::
  "'w HAL_I2C \<Rightarrow> DAC8571_HandleTypeDef option \<Rightarrow> 16 word \<Rightarrow> 'w
    \<Rightarrow> HAL_StatusTypeDef \<times> DAC8571_HandleTypeDef option \<times> 'w" where
  "DAC8571_Write hal hdac8571 val w =
     (case hdac8571 of
        None \<Rightarrow> (HAL_ERROR, None, w)
      | Some h \<Rightarrow>
          (let buffer = [writeMode h, ucast (drop_bit 8 val), ucast (val AND 0xFF)];
               (status, w') = Master_Transmit hal w (hi2c h) (push_bit 1 (address h)) buffer 100
           in if status \<noteq> HAL_OK
              then (status, Some (h\<lparr>lastError := DAC8571_I2C_ERROR\<rparr>), w')
              else (HAL_OK, Some (h\<lparr>lastValue := val, lastError := DAC8571_OK\<rparr>), w')))"

text \<open>
  \<^verbatim>\<open>DAC8571_IsConnected\<close>: one trial of \<^verbatim>\<open>HAL_I2C_IsDeviceReady\<close> with timeout 10.
\<close>

definition DAC8571_IsConnected ::
  "'w HAL_I2C \<Rightarrow> DAC8571_HandleTypeDef option \<Rightarrow> 'w
    \<Rightarrow> HAL_StatusTypeDef \<times> DAC8571_HandleTypeDef option \<times> 'w" where
  "DAC8571_IsConnected hal hdac8571 w =
     (case hdac8571 of
        None \<Rightarrow> (HAL_ERROR, None, w)
      | Some h \<Rightarrow>
          (let (status, w') = IsDeviceReady hal w (hi2c h) (push_bit 1 (address h)) 1 10
           in if status \<noteq> HAL_OK
              then (status, Some (h\<lparr>lastError := DAC8571_I2C_ERROR\<rparr>), w')
              else (status, Some h, w')))"

text \<open>
  \<^verbatim>\<open>DAC8571_Init\<close>. The probe loop runs \<open>attempt\<close> from 1 to \<^verbatim>\<open>max_attempts\<close> = 5
  and waits \<^verbatim>\<open>retry_delay_ms\<close> = 25 after each failed attempt; its first result is the
  flag \<^verbatim>\<open>connected\<close>, which the function only prints. The parameters \<^verbatim>\<open>hi2c\<close> and
  \<^verbatim>\<open>address\<close> of \<^verbatim>\<open>DAC8571_Init\<close> are \<open>hi2c_arg\<close> and \<open>addr\<close> here, the fields of the
  handle having their names.
\<close>

function Init_probe ::
  "'w HAL_I2C \<Rightarrow> DAC8571_HandleTypeDef option \<Rightarrow> int \<Rightarrow> 'w
    \<Rightarrow> bool \<times> DAC8571_HandleTypeDef option \<times> 'w" where
  "Init_probe hal hdac8571 attempt w =
     (if attempt \<le> 5
      then (let (status, hdac8571', w') = DAC8571_IsConnected hal hdac8571 w
            in if status = HAL_OK then (True, hdac8571', w')
               else Init_probe hal hdac8571' (attempt + 1) (Delay hal w' 25))
      else (False, hdac8571, w))"
  by pat_completeness auto
termination
  by (relation "measure (\<lambda>(hal, hdac8571, attempt, w). nat (6 - attempt))") auto

declare Init_probe.simps [simp del]

definition DAC8571_Init ::
  "'w HAL_I2C \<Rightarrow> DAC8571_HandleTypeDef option \<Rightarrow> I2C_ptr \<Rightarrow> 8 word \<Rightarrow> 'w
    \<Rightarrow> DAC8571_HandleTypeDef option \<times> 'w" where
  "DAC8571_Init hal hdac8571 hi2c_arg addr w =
     (case hdac8571 of
        None \<Rightarrow> (None, w)
      | Some h0 \<Rightarrow>
          if hi2c_arg = None then (Some h0, w)
          else if addr \<noteq> 0x4C \<and> addr \<noteq> 0x4E then (Some h0, w)
          else
            (let h = h0\<lparr>hi2c := hi2c_arg, address := ucast addr, lastValue := 0,
                       writeMode := DAC8571_CMD_WRITE_AND_UPDATE_DAC,
                       lastError := DAC8571_OK\<rparr>;
                 w1 = (if Get_Flag_Busy hal w (hi2c h) then Clear_Flag_Busy hal w (hi2c h)
                       else w);
                 (connected, hdac8571', w2) = Init_probe hal (Some h) 1 w1
             in (hdac8571', w2)))"

text \<open>
  \<^verbatim>\<open>DAC8571_WriteArray\<close>. \<open>arr\<close> is the array behind the pointer (\<open>None\<close> for a null
  pointer). The loop index \<open>i\<close> stays below \<open>length \<le> 14\<close>, so the \<^verbatim>\<open>uint8_t\<close> counter
  never wraps and is a \<open>nat\<close>. Reading \<^verbatim>\<open>arr[i]\<close> beyond the end of the array is
  undefined behaviour in C: the model returns \<open>None\<close> there.
\<close>

function WriteArray_loop ::
  "'w HAL_I2C \<Rightarrow> DAC8571_HandleTypeDef option \<Rightarrow> 16 word list \<Rightarrow> nat \<Rightarrow> nat \<Rightarrow> 'w
    \<Rightarrow> (HAL_StatusTypeDef \<times> DAC8571_HandleTypeDef option \<times> 'w) option" where
  "WriteArray_loop hal hdac8571 arr len i w =
     (if i < len
      then (if i < length arr
            then (let (status, hdac8571', w') = DAC8571_Write hal hdac8571 (arr ! i) w
                  in if status \<noteq> HAL_OK then Some (status, hdac8571', w')
                     else WriteArray_loop hal hdac8571' arr len (i + 1) w')
            else None)
      else Some (HAL_OK, hdac8571, w))"
  by pat_completeness auto
termination
  by (relation "measure (\<lambda>(hal, hdac8571, arr, len, i, w). len - i)") auto

declare WriteArray_loop.simps [simp del]

definition DAC8571_WriteArray ::
  "'w HAL_I2C \<Rightarrow> DAC8571_HandleTypeDef option \<Rightarrow> 16 word list option \<Rightarrow> 8 word \<Rightarrow> 'w
    \<Rightarrow> (HAL_StatusTypeDef \<times> DAC8571_HandleTypeDef option \<times> 'w) option" where
  "DAC8571_WriteArray hal hdac8571 arr len w =
     (case hdac8571 of
        None \<Rightarrow> Some (HAL_ERROR, None, w)
      | Some h \<Rightarrow>
          (case arr of
             None \<Rightarrow> Some (HAL_ERROR, Some h, w)
           | Some a \<Rightarrow>
               if len = 0 then Some (HAL_ERROR, Some h, w)
               else if 14 < len
               then Some (HAL_ERROR, Some (h\<lparr>lastError := DAC8571_BUFFER_ERROR\<rparr>), w)
               else WriteArray_loop hal (Some h) a (unat len) 0 w))"

text \<open>
  \<^verbatim>\<open>DAC8571_Read\<close>: a receive of 3 bytes from \<^verbatim>\<open>address << 1 | 0x01\<close> into the buffer
  \<^verbatim>\<open>received_data\<close>, which starts as three zero bytes. The value is
  \<^verbatim>\<open>(received_data[0] << 8) | received_data[1]\<close>.
\<close>

definition DAC8571_Read ::
  "'w HAL_I2C \<Rightarrow> DAC8571_HandleTypeDef option \<Rightarrow> 'w
    \<Rightarrow> 16 word \<times> DAC8571_HandleTypeDef option \<times> 'w" where
  "DAC8571_Read hal hdac8571 w =
     (case hdac8571 of
        None \<Rightarrow> (0, None, w)
      | Some h \<Rightarrow>
          (let (status, rx, w') =
                 Master_Receive hal w (hi2c h) (push_bit 1 (address h) OR 0x01) 3 HAL_MAX_DELAY;
               received_data = take 3 (rx @ [0, 0, 0])
           in if status \<noteq> HAL_OK
              then (0, Some (h\<lparr>lastError := DAC8571_I2C_ERROR\<rparr>), w')
              else (push_bit 8 (ucast (received_data ! 0)) OR ucast (received_data ! 1),
                    Some (h\<lparr>lastError := DAC8571_OK\<rparr>), w')))"

subsection \<open>Floating point, as far as \<^verbatim>\<open>DAC8571_SetVoltage\<close> needs it\<close>

text \<open>
  The argument \<^verbatim>\<open>voltage\<close> is a C \<^verbatim>\<open>float\<close> (IEEE 754 binary32). \<open>Finite m e\<close> is
  the finite value \<open>m * 2 ^ e\<close>; it is a binary32 value when \<open>\<bar>m\<bar> < 2 ^ 24\<close> and
  \<open>- 149 \<le> e \<le> 104\<close>. A value has several such representations, and the two zeros
  are one value: the driver does not tell them apart. \<open>Infinity neg\<close> is the infinity
  of that sign.
\<close>

datatype c_float = Finite int int | Infinity bool | NaN

definition is_binary32 :: "c_float \<Rightarrow> bool" where
  "is_binary32 v =
     (case v of Finite m e \<Rightarrow> \<bar>m\<bar> < 2 ^ 24 \<and> - 149 \<le> e \<and> e \<le> 104 | _ \<Rightarrow> True)"

definition finite_value :: "int \<Rightarrow> int \<Rightarrow> rat" where
  "finite_value m e = of_int m * 2 powi e"

text \<open>
  \<^verbatim>\<open>DAC8571_REF_VOLTAGE\<close> is the \<^verbatim>\<open>double\<close> constant 2.5. The comparisons
  \<^verbatim>\<open>voltage < 0.0f\<close> and \<^verbatim>\<open>voltage > DAC8571_REF_VOLTAGE\<close> are exact, and false for
  a NaN.
\<close>

definition DAC8571_REF_VOLTAGE :: rat where
  "DAC8571_REF_VOLTAGE = 5 / 2"

definition float_less :: "c_float \<Rightarrow> rat \<Rightarrow> bool" where
  "float_less v c =
     (case v of Finite m e \<Rightarrow> finite_value m e < c | Infinity neg \<Rightarrow> neg | NaN \<Rightarrow> False)"

definition float_greater :: "c_float \<Rightarrow> rat \<Rightarrow> bool" where
  "float_greater v c =
     (case v of Finite m e \<Rightarrow> c < finite_value m e | Infinity neg \<Rightarrow> \<not> neg | NaN \<Rightarrow> False)"

text \<open>
  The expression \<^verbatim>\<open>(voltage / DAC8571_REF_VOLTAGE) * 65535\<close> is evaluated in
  \<^verbatim>\<open>double\<close> (IEEE 754 binary64, rounding to nearest, ties to even): each of the two
  operations rounds its exact result to 53 significant bits, and no intermediate
  result is kept in a wider format. \<open>bitlen n\<close> is the number
  of binary digits of a positive \<open>n\<close>, and \<open>ilog2 x\<close> is the exponent \<open>e\<close> with
  \<open>2 ^ e \<le> x < 2 ^ (e + 1)\<close> of a positive \<open>x\<close>. The exponent range
  of binary64 is not modelled: for a binary32 \<open>voltage\<close> between 0 and 2.5 both results
  are zero or lie between \<open>2 ^ - 151\<close> and \<open>2 ^ 16\<close>, far inside it.
\<close>

function bitlen :: "int \<Rightarrow> int" where
  "bitlen n = (if 0 < n then 1 + bitlen (n div 2) else 0)"
  by pat_completeness auto
termination
  by (relation "measure nat") auto

declare bitlen.simps [simp del]

definition ilog2 :: "rat \<Rightarrow> int" where
  "ilog2 x = (if 1 \<le> x then bitlen \<lfloor>x\<rfloor> - 1 else - bitlen (\<lceil>1 / x\<rceil> - 1))"

definition round_ties_even :: "rat \<Rightarrow> int" where
  "round_ties_even x =
     (let f = \<lfloor>x\<rfloor>; d = x - of_int f
      in if d < 1 / 2 then f else if 1 / 2 < d then f + 1 else if even f then f else f + 1)"

definition round_double :: "rat \<Rightarrow> rat" where
  "round_double x =
     (if x = 0 then 0
      else (let ulp = 2 powi (ilog2 \<bar>x\<bar> - 52)
            in of_int (round_ties_even (x / ulp)) * ulp))"

definition double_div :: "rat \<Rightarrow> rat \<Rightarrow> rat" where
  "double_div x y = round_double (x / y)"

definition double_mul :: "rat \<Rightarrow> rat \<Rightarrow> rat" where
  "double_mul x y = round_double (x * y)"

text \<open>
  The cast \<^verbatim>\<open>(uint16_t)\<close> of a \<^verbatim>\<open>double\<close> discards the fraction; when the result
  does not fit the type the behaviour is undefined (\<open>None\<close>).
\<close>

definition double_to_uint16 :: "rat \<Rightarrow> 16 word option" where
  "double_to_uint16 x =
     (if - 1 < x \<and> x < 65536 then Some (word_of_int (if 0 \<le> x then \<lfloor>x\<rfloor> else \<lceil>x\<rceil>)) else None)"

text \<open>
  \<^verbatim>\<open>DAC8571_SetVoltage\<close>. A NaN passes both comparisons and its cast is undefined
  behaviour (\<open>None\<close>); an infinity fails one of them.
\<close>

definition DAC8571_SetVoltage ::
  "'w HAL_I2C \<Rightarrow> DAC8571_HandleTypeDef option \<Rightarrow> c_float \<Rightarrow> 'w
    \<Rightarrow> (HAL_StatusTypeDef \<times> DAC8571_HandleTypeDef option \<times> 'w) option" where
  "DAC8571_SetVoltage hal hdac8571 voltage w =
     (if hdac8571 = None \<or> float_less voltage 0 \<or> float_greater voltage DAC8571_REF_VOLTAGE
      then Some (HAL_ERROR, hdac8571, w)
      else (case voltage of
              Finite m e \<Rightarrow>
                (case double_to_uint16
                        (double_mul (double_div (finite_value m e) DAC8571_REF_VOLTAGE) 65535) of
                   None \<Rightarrow> None
                 | Some val \<Rightarrow> Some (DAC8571_Write hal hdac8571 val w))
            | _ \<Rightarrow> None))"

subsection \<open>Modes, power-down and accessors\<close>

definition DAC8571_SetWriteMode ::
  "DAC8571_HandleTypeDef option \<Rightarrow> 8 word \<Rightarrow> HAL_StatusTypeDef \<times> DAC8571_HandleTypeDef option"
  where
  "DAC8571_SetWriteMode hdac8571 mode =
     (case hdac8571 of
        None \<Rightarrow> (HAL_ERROR, None)
      | Some h \<Rightarrow>
          if mode = DAC8571_CMD_WRITE_TMP \<or> mode = DAC8571_CMD_WRITE_TMP_PWDN
             \<or> mode = DAC8571_CMD_WRITE_AND_UPDATE_DAC \<or> mode = DAC8571_CMD_WRITE_UPDATE_PWDN
             \<or> mode = DAC8571_CMD_UPDATE_FROM_TMP \<or> mode = DAC8571_CMD_BROADCAST_WRITE_TMP
             \<or> mode = DAC8571_CMD_BROADCAST_WRITE_UPDATE
             \<or> mode = DAC8571_CMD_BROADCAST_PWDN_ALL
          then (HAL_OK, Some (h\<lparr>writeMode := mode\<rparr>))
          else (HAL_ERROR, Some h))"

definition DAC8571_GetWriteMode :: "DAC8571_HandleTypeDef option \<Rightarrow> 8 word" where
  "DAC8571_GetWriteMode hdac8571 = (case hdac8571 of None \<Rightarrow> 0 | Some h \<Rightarrow> writeMode h)"

text \<open>
  The \<^verbatim>\<open>switch\<close> of \<^verbatim>\<open>DAC8571_PowerMode\<close>: the value \<^verbatim>\<open>pdValue\<close> of each case, and
  \<open>None\<close> for the \<^verbatim>\<open>default\<close> case.
\<close>

definition PowerMode_pdValue :: "8 word \<Rightarrow> 16 word option" where
  "PowerMode_pdValue pdMode =
     (if pdMode = DAC8571_PD_LOW_POWER then Some (push_bit 13 0b000)
      else if pdMode = DAC8571_PD_FAST then Some (push_bit 13 0b001)
      else if pdMode = DAC8571_PD_1_KOHM then Some (push_bit 13 0b010)
      else if pdMode = DAC8571_PD_100_KOHM then Some (push_bit 13 0b110)
      else if pdMode = DAC8571_PD_HI_Z then Some (push_bit 13 0b111)
      else None)"

text \<open>
  \<^verbatim>\<open>DAC8571_PowerMode\<close> stores \<^verbatim>\<open>DAC8571_CMD_WRITE_TMP_PWDN\<close> in \<open>writeMode\<close> before
  the \<^verbatim>\<open>switch\<close>.
\<close>

definition DAC8571_PowerMode ::
  "'w HAL_I2C \<Rightarrow> DAC8571_HandleTypeDef option \<Rightarrow> 8 word \<Rightarrow> 'w
    \<Rightarrow> HAL_StatusTypeDef \<times> DAC8571_HandleTypeDef option \<times> 'w" where
  "DAC8571_PowerMode hal hdac8571 pdMode w =
     (case hdac8571 of
        None \<Rightarrow> (HAL_ERROR, None, w)
      | Some h0 \<Rightarrow>
          (let h = h0\<lparr>writeMode := DAC8571_CMD_WRITE_TMP_PWDN\<rparr>
           in case PowerMode_pdValue pdMode of
                None \<Rightarrow> (HAL_ERROR, Some h, w)
              | Some pdValue \<Rightarrow> DAC8571_Write hal (Some h) pdValue w))"

definition DAC8571_WakeUp ::
  "'w HAL_I2C \<Rightarrow> DAC8571_HandleTypeDef option \<Rightarrow> 16 word \<Rightarrow> 'w
    \<Rightarrow> HAL_StatusTypeDef \<times> DAC8571_HandleTypeDef option \<times> 'w" where
  "DAC8571_WakeUp hal hdac8571 val w =
     (case hdac8571 of
        None \<Rightarrow> (HAL_ERROR, None, w)
      | Some h \<Rightarrow> DAC8571_Write hal (Some h) val w)"

definition DAC8571_Reset ::
  "'w HAL_I2C \<Rightarrow> DAC8571_HandleTypeDef option \<Rightarrow> 'w
    \<Rightarrow> HAL_StatusTypeDef \<times> DAC8571_HandleTypeDef option \<times> 'w" where
  "DAC8571_Reset hal hdac8571 w =
     (case hdac8571 of
        None \<Rightarrow> (HAL_ERROR, None, w)
      | Some h \<Rightarrow> DAC8571_Write hal (Some h) 0 w)"

definition DAC8571_GetLastError ::
  "DAC8571_HandleTypeDef option \<Rightarrow> int \<times> DAC8571_HandleTypeDef option" where
  "DAC8571_GetLastError hdac8571 =
     (case hdac8571 of
        None \<Rightarrow> (DAC8571_ADDRESS_ERROR, None)
      | Some h \<Rightarrow> (lastError h, Some (h\<lparr>lastError := DAC8571_OK\<rparr>)))"

definition DAC8571_GetAddress :: "DAC8571_HandleTypeDef option \<Rightarrow> 8 word" where
  "DAC8571_GetAddress hdac8571 = (case hdac8571 of None \<Rightarrow> 0 | Some h \<Rightarrow> ucast (address h))"

section \<open>Sequences of driver calls\<close>

text \<open>
  What the specification says of \<^verbatim>\<open>DAC8571_WriteArray\<close> on a valid request, in its own
  words: one \<^verbatim>\<open>DAC8571_Write\<close> per element, in order, stopping at the first one that
  fails and returning its status.
\<close>

fun Write_each ::
  "'w HAL_I2C \<Rightarrow> DAC8571_HandleTypeDef option \<Rightarrow> 16 word list \<Rightarrow> 'w
    \<Rightarrow> HAL_StatusTypeDef \<times> DAC8571_HandleTypeDef option \<times> 'w" where
  "Write_each hal hdac8571 [] w = (HAL_OK, hdac8571, w)"
| "Write_each hal hdac8571 (x # xs) w =
     (let (status, hdac8571', w') = DAC8571_Write hal hdac8571 x w
      in if status \<noteq> HAL_OK then (status, hdac8571', w')
         else Write_each hal hdac8571' xs w')"

text \<open>\<open>n\<close> successive calls of \<^verbatim>\<open>DAC8571_GetLastError\<close>: the codes they return, in order.\<close>

fun GetLastError_repeat ::
  "nat \<Rightarrow> DAC8571_HandleTypeDef option \<Rightarrow> int list \<times> DAC8571_HandleTypeDef option" where
  "GetLastError_repeat 0 hdac8571 = ([], hdac8571)"
| "GetLastError_repeat (Suc n) hdac8571 =
     (let (e, hdac8571') = DAC8571_GetLastError hdac8571;
          (es, hdac8571'') = GetLastError_repeat n hdac8571'
      in (e # es, hdac8571''))"

text \<open>
  A call of one of the driver's functions with its arguments (the handle pointer apart),
  and its effect on the handle and on the state behind the HAL. The result is \<open>None\<close>
  when the call has undefined behaviour.
\<close>

datatype driver_op =
    Op_Init I2C_ptr "8 word"
  | Op_Write "16 word"
  | Op_IsConnected
  | Op_WriteArray "16 word list option" "8 word"
  | Op_Read
  | Op_SetVoltage c_float
  | Op_SetWriteMode "8 word"
  | Op_GetWriteMode
  | Op_PowerMode "8 word"
  | Op_WakeUp "16 word"
  | Op_Reset
  | Op_GetLastError
  | Op_GetAddress

fun driver_call ::
  "'w HAL_I2C \<Rightarrow> driver_op \<Rightarrow> DAC8571_HandleTypeDef option \<Rightarrow> 'w
    \<Rightarrow> (DAC8571_HandleTypeDef option \<times> 'w) option" where
  "driver_call hal (Op_Init p addr) hdac w = Some (DAC8571_Init hal hdac p addr w)"
| "driver_call hal (Op_Write val) hdac w = Some (snd (DAC8571_Write hal hdac val w))"
| "driver_call hal Op_IsConnected hdac w = Some (snd (DAC8571_IsConnected hal hdac w))"
| "driver_call hal (Op_WriteArray arr len) hdac w =
     map_option snd (DAC8571_WriteArray hal hdac arr len w)"
| "driver_call hal Op_Read hdac w = Some (snd (DAC8571_Read hal hdac w))"
| "driver_call hal (Op_SetVoltage voltage) hdac w =
     map_option snd (DAC8571_SetVoltage hal hdac voltage w)"
| "driver_call hal (Op_SetWriteMode mode) hdac w = Some (snd (DAC8571_SetWriteMode hdac mode), w)"
| "driver_call hal Op_GetWriteMode hdac w = Some (hdac, w)"
| "driver_call hal (Op_PowerMode pdMode) hdac w = Some (snd (DAC8571_PowerMode hal hdac pdMode w))"
| "driver_call hal (Op_WakeUp val) hdac w = Some (snd (DAC8571_WakeUp hal hdac val w))"
| "driver_call hal Op_Reset hdac w = Some (snd (DAC8571_Reset hal hdac w))"
| "driver_call hal Op_GetLastError hdac w = Some (snd (DAC8571_GetLastError hdac), w)"
| "driver_call hal Op_GetAddress hdac w = Some (hdac, w)"

fun driver_calls ::
  "'w HAL_I2C \<Rightarrow> driver_op list \<Rightarrow> DAC8571_HandleTypeDef option \<Rightarrow> 'w
    \<Rightarrow> (DAC8571_HandleTypeDef option \<times> 'w) option" where
  "driver_calls hal [] hdac w = Some (hdac, w)"
| "driver_calls hal (op # ops) hdac w =
     (case driver_call hal op hdac w of
        None \<Rightarrow> None
      | Some (hdac', w') \<Rightarrow> driver_calls hal ops hdac' w')"

text \<open>
  The invariant of the specification's data model: the address is one of the two
  addresses of the device and the write mode one of the eight command bytes.
\<close>

definition valid_handle :: "DAC8571_HandleTypeDef \<Rightarrow> bool" where
  "valid_handle h \<longleftrightarrow>
     (address h = 0x4C \<or> address h = 0x4E) \<and>
     (writeMode h = 0x00 \<or> writeMode h = 0x01 \<or> writeMode h = 0x10 \<or> writeMode h = 0x11
      \<or> writeMode h = 0x20 \<or> writeMode h = 0x30 \<or> writeMode h = 0x31 \<or> writeMode h = 0x33)"

section \<open>A simulated transport\<close>

text \<open>
  A transport to run the driver on. It keeps a device register of two bytes and the
  trace of the transactions issued so far. The status of the \<open>n\<close>-th transaction is
  \<open>script n\<close>. A successful transmit of a 3-byte frame stores the two value bytes of the
  frame in the register; a successful receive returns them, high byte first, followed
  by a zero byte. \<^verbatim>\<open>HAL_Delay\<close> and the busy flag do nothing.
\<close>

datatype transaction =
    Transmit I2C_ptr "16 word" "8 word list" "32 word"
  | Receive I2C_ptr "16 word" "16 word" "32 word"
  | Probe I2C_ptr "16 word" "32 word" "32 word"

record sim_bus =
  reg_hi :: "8 word"
  reg_lo :: "8 word"
  trace :: "transaction list"

definition sim_transmit ::
  "(nat \<Rightarrow> HAL_StatusTypeDef) \<Rightarrow> sim_bus \<Rightarrow> I2C_ptr \<Rightarrow> 16 word \<Rightarrow> 8 word list \<Rightarrow> 32 word
    \<Rightarrow> HAL_StatusTypeDef \<times> sim_bus" where
  "sim_transmit script w p a d t =
     (let status = script (length (trace w));
          w' = w\<lparr>trace := trace w @ [Transmit p a d t]\<rparr>
      in (status,
          case d of
            [c, hi, lo] \<Rightarrow> if status = HAL_OK then w'\<lparr>reg_hi := hi, reg_lo := lo\<rparr> else w'
          | _ \<Rightarrow> w'))"

definition sim_receive ::
  "(nat \<Rightarrow> HAL_StatusTypeDef) \<Rightarrow> sim_bus \<Rightarrow> I2C_ptr \<Rightarrow> 16 word \<Rightarrow> 16 word \<Rightarrow> 32 word
    \<Rightarrow> HAL_StatusTypeDef \<times> 8 word list \<times> sim_bus" where
  "sim_receive script w p a n t =
     (let status = script (length (trace w))
      in (status, if status = HAL_OK then [reg_hi w, reg_lo w, 0] else [],
          w\<lparr>trace := trace w @ [Receive p a n t]\<rparr>))"

definition sim_probe ::
  "(nat \<Rightarrow> HAL_StatusTypeDef) \<Rightarrow> sim_bus \<Rightarrow> I2C_ptr \<Rightarrow> 16 word \<Rightarrow> 32 word \<Rightarrow> 32 word
    \<Rightarrow> HAL_StatusTypeDef \<times> sim_bus" where
  "sim_probe script w p a n t =
     (script (length (trace w)), w\<lparr>trace := trace w @ [Probe p a n t]\<rparr>)"

definition sim_hal :: "(nat \<Rightarrow> HAL_StatusTypeDef) \<Rightarrow> sim_bus HAL_I2C" where
  "sim_hal script =
     \<lparr>Master_Transmit = sim_transmit script, Master_Receive = sim_receive script,
      IsDeviceReady = sim_probe script, Delay = (\<lambda>w ms. w),
      Get_Flag_Busy = (\<lambda>w p. False), Clear_Flag_Busy = (\<lambda>w p. w)\<rparr>"

text \<open>A transport that never fails, one whose first transaction fails, and one whose
  second transaction fails.\<close>

definition all_ok :: "nat \<Rightarrow> HAL_StatusTypeDef" where
  "all_ok n = HAL_OK"

definition first_fails :: "nat \<Rightarrow> HAL_StatusTypeDef" where
  "first_fails n = (if n = 0 then HAL_TIMEOUT else HAL_OK)"

definition second_fails :: "nat \<Rightarrow> HAL_StatusTypeDef" where
  "second_fails n = (if n = 1 then HAL_BUSY else HAL_OK)"

definition idle_bus :: sim_bus where
  "idle_bus = \<lparr>reg_hi = 0, reg_lo = 0, trace = []\<rparr>"

text \<open>
  A zero-initialised handle, a handle as \<^verbatim>\<open>DAC8571_Init\<close> leaves it, and the same
  handle with a latched bus error.
\<close>

definition zero_handle :: DAC8571_HandleTypeDef where
  "zero_handle = \<lparr>hi2c = None, address = 0, lastValue = 0, writeMode = 0, lastError = 0\<rparr>"

definition bound_handle :: DAC8571_HandleTypeDef where
  "bound_handle =
     \<lparr>hi2c = Some 1, address = 0x4C, lastValue = 0,
      writeMode = DAC8571_CMD_WRITE_AND_UPDATE_DAC, lastError = DAC8571_OK\<rparr>"

definition failed_handle :: DAC8571_HandleTypeDef where
  "failed_handle = bound_handle\<lparr>lastError := DAC8571_I2C_ERROR\<rparr>"

text \<open>
  A faithful loopback: whatever 3-byte frame a transport has accepted, a receive that
  follows succeeds and delivers the two value bytes of that frame first.
\<close>

definition faithful_loopback :: "'w HAL_I2C \<Rightarrow> bool" where
  "faithful_loopback hal \<longleftrightarrow>
     (\<forall>w p a c hi lo t w'.
        Master_Transmit hal w p a [c, hi, lo] t = (HAL_OK, w') \<longrightarrow>
        (\<forall>p' a' n t'. \<exists>rest w''.
           Master_Receive hal w' p' a' n t' = (HAL_OK, hi # lo # rest, w'')))"

text \<open>
  What a bus operation may change in a handle: \<open>lastValue\<close>, and \<open>lastError\<close> to
  \<open>OK\<close> or \<open>I2C_ERROR\<close>; the binding and the write mode stay.
\<close>

definition bus_effect :: "DAC8571_HandleTypeDef \<Rightarrow> DAC8571_HandleTypeDef \<Rightarrow> bool" where
  "bus_effect h h' \<longleftrightarrow>
     hi2c h' = hi2c h \<and> address h' = address h \<and> writeMode h' = writeMode h \<and>
     (lastError h' = lastError h \<or> lastError h' = DAC8571_OK
      \<or> lastError h' = DAC8571_I2C_ERROR)"

section \<open>Properties\<close>

lemmas DAC8571_consts =
  DAC8571_PD_LOW_POWER_def DAC8571_PD_FAST_def DAC8571_PD_1_KOHM_def
  DAC8571_PD_100_KOHM_def DAC8571_PD_HI_Z_def
  DAC8571_OK_def DAC8571_I2C_ERROR_def DAC8571_ADDRESS_ERROR_def DAC8571_BUFFER_ERROR_def
  DAC8571_CMD_WRITE_TMP_def DAC8571_CMD_WRITE_TMP_PWDN_def
  DAC8571_CMD_WRITE_AND_UPDATE_DAC_def DAC8571_CMD_WRITE_UPDATE_PWDN_def
  DAC8571_CMD_UPDATE_FROM_TMP_def DAC8571_CMD_BROADCAST_WRITE_TMP_def
  DAC8571_CMD_BROADCAST_WRITE_UPDATE_def DAC8571_CMD_BROADCAST_PWDN_ALL_def

subsection \<open>Bytes of a 16-bit value\<close>

lemma hi_byte: "(ucast (drop_bit 8 (v :: 16 word)) :: 8 word) = of_nat (unat v div 256)"
proof -
  have "unat (ucast (drop_bit 8 v) :: 8 word) = unat (of_nat (unat v div 256) :: 8 word)"
    by (simp add: unsigned_ucast_eq unat_drop_bit_eq unsigned_of_nat drop_bit_eq_div unat_div)
  then show ?thesis by (simp only: word_unat_eq_iff)
qed

lemma lo_byte: "(ucast (v AND 0xFF :: 16 word) :: 8 word) = of_nat (unat v mod 256)"
proof -
  have m: "(0xFF :: 16 word) = mask 8" by (simp add: mask_eq_exp_minus_1)
  have "unat (ucast (v AND 0xFF) :: 8 word) = unat (of_nat (unat v mod 256) :: 8 word)"
    unfolding m
    by (simp add: unsigned_ucast_eq unsigned_of_nat unsigned_take_bit_eq take_bit_eq_mod
        unat_mod flip: take_bit_eq_mask)
  then show ?thesis by (simp only: word_unat_eq_iff)
qed

subsection \<open>Write\<close>

text \<open>
  Claim C1. For a non-null handle and any 16-bit value, \<^verbatim>\<open>DAC8571_Write\<close> hands the
  transport the 3-byte frame made of the current write mode, the high byte and the low
  byte of the value (addressed to \<^verbatim>\<open>address << 1\<close>, timeout 100), and what the transport
  answers to that frame decides the outcome: on \<^verbatim>\<open>HAL_OK\<close> the handle gets
  \<open>lastValue = value\<close> and \<open>lastError = OK\<close> and the result is \<^verbatim>\<open>HAL_OK\<close>; on any other
  status the handle gets \<open>lastError = I2C_ERROR\<close>, nothing else in it changes (so
  \<open>lastValue\<close> is kept), and the result is that status.
\<close>

theorem C1_Write_frame_and_outcome:
  assumes "Master_Transmit hal w (hi2c h) (push_bit 1 (address h))
             [writeMode h, of_nat (unat val div 256), of_nat (unat val mod 256)] 100
           = (status, w')"
  shows "DAC8571_Write hal (Some h) val w =
           (if status = HAL_OK
            then (HAL_OK, Some (h\<lparr>lastValue := val, lastError := DAC8571_OK\<rparr>), w')
            else (status, Some (h\<lparr>lastError := DAC8571_I2C_ERROR\<rparr>), w'))"
  using assms by (simp add: DAC8571_Write_def hi_byte lo_byte)

theorem C1_Write_frame_and_outcome_witness:
  "DAC8571_Write (sim_hal all_ok) (Some bound_handle) 0xABCD idle_bus =
     (HAL_OK, Some (bound_handle\<lparr>lastValue := 0xABCD, lastError := DAC8571_OK\<rparr>),
      \<lparr>reg_hi = 0xAB, reg_lo = 0xCD,
       trace = [Transmit (Some 1) 0x98 [0x10, 0xAB, 0xCD] 100]\<rparr>)
   \<and> DAC8571_Write (sim_hal first_fails) (Some bound_handle) 0xABCD idle_bus =
     (HAL_TIMEOUT, Some (bound_handle\<lparr>lastError := DAC8571_I2C_ERROR\<rparr>),
      \<lparr>reg_hi = 0, reg_lo = 0, trace = [Transmit (Some 1) 0x98 [0x10, 0xAB, 0xCD] 100]\<rparr>)"
proof -
  have ok: "Master_Transmit (sim_hal all_ok) idle_bus (hi2c bound_handle)
      (push_bit 1 (address bound_handle))
      [writeMode bound_handle, of_nat (unat (0xABCD :: 16 word) div 256),
       of_nat (unat (0xABCD :: 16 word) mod 256)] 100
    = (HAL_OK, \<lparr>reg_hi = 0xAB, reg_lo = 0xCD,
         trace = [Transmit (Some 1) 0x98 [0x10, 0xAB, 0xCD] 100]\<rparr>)"
    by (simp add: sim_hal_def sim_transmit_def all_ok_def idle_bus_def bound_handle_def
        DAC8571_consts)
  have failing: "Master_Transmit (sim_hal first_fails) idle_bus (hi2c bound_handle)
      (push_bit 1 (address bound_handle))
      [writeMode bound_handle, of_nat (unat (0xABCD :: 16 word) div 256),
       of_nat (unat (0xABCD :: 16 word) mod 256)] 100
    = (HAL_TIMEOUT, \<lparr>reg_hi = 0, reg_lo = 0,
         trace = [Transmit (Some 1) 0x98 [0x10, 0xAB, 0xCD] 100]\<rparr>)"
    by (simp add: sim_hal_def sim_transmit_def first_fails_def idle_bus_def bound_handle_def
        DAC8571_consts)
  show ?thesis
    using C1_Write_frame_and_outcome [OF ok] C1_Write_frame_and_outcome [OF failing] by simp
qed

subsection \<open>Power-down\<close>

text \<open>
  Claim C4. For each of the five power-down modes \<^verbatim>\<open>DAC8571_PowerMode\<close> on a non-null
  handle is a \<^verbatim>\<open>DAC8571_Write\<close> of a value whose bits 15 to 13 are the documented
  field (low power 000, fast 001, 1 kOhm 010, 100 kOhm 110, high impedance 111) and
  whose bits 12 to 0 are zero, made with the write mode set to the command 0x01;
  the handle it leaves has write mode 0x01 whatever the write mode was before.
\<close>

theorem C4_PowerMode_field_and_mode:
  assumes "(pdMode = DAC8571_PD_LOW_POWER \<and> field = 0b000)
         \<or> (pdMode = DAC8571_PD_FAST \<and> field = 0b001)
         \<or> (pdMode = DAC8571_PD_1_KOHM \<and> field = 0b010)
         \<or> (pdMode = DAC8571_PD_100_KOHM \<and> field = 0b110)
         \<or> (pdMode = DAC8571_PD_HI_Z \<and> field = 0b111)"
  shows "\<exists>pdValue status h' w'.
           drop_bit 13 pdValue = field \<and> take_bit 13 pdValue = 0 \<and>
           DAC8571_PowerMode hal (Some h) pdMode w
             = DAC8571_Write hal (Some (h\<lparr>writeMode := 0x01\<rparr>)) pdValue w \<and>
           DAC8571_PowerMode hal (Some h) pdMode w = (status, Some h', w') \<and>
           writeMode h' = 0x01"
proof -
  obtain pdValue where v: "PowerMode_pdValue pdMode = Some pdValue"
    "drop_bit 13 pdValue = field" "take_bit 13 pdValue = 0"
    using assms by (auto simp: PowerMode_pdValue_def DAC8571_consts)
  have eq: "DAC8571_PowerMode hal (Some h) pdMode w
      = DAC8571_Write hal (Some (h\<lparr>writeMode := 0x01\<rparr>)) pdValue w"
    by (simp add: DAC8571_PowerMode_def v DAC8571_consts)
  obtain status w' where tx: "Master_Transmit hal w (hi2c h) (push_bit 1 (address h))
      [0x01, ucast (drop_bit 8 pdValue), ucast (pdValue AND 0xFF)] 100 = (status, w')"
    by (cases "Master_Transmit hal w (hi2c h) (push_bit 1 (address h))
      [0x01, ucast (drop_bit 8 pdValue), ucast (pdValue AND 0xFF)] 100")
  have "\<exists>h'. DAC8571_Write hal (Some (h\<lparr>writeMode := 0x01\<rparr>)) pdValue w
        = (status, Some h', w') \<and> writeMode h' = 0x01"
    using tx by (simp add: DAC8571_Write_def)
  with eq v show ?thesis by metis
qed

theorem C4_PowerMode_field_and_mode_witness:
  "DAC8571_PD_100_KOHM = 0x03 \<and> writeMode bound_handle = 0x10 \<and>
   (\<exists>pdValue status h' w'.
      drop_bit 13 pdValue = (0b110 :: 16 word) \<and> take_bit 13 pdValue = 0 \<and>
      DAC8571_PowerMode (sim_hal all_ok) (Some bound_handle) DAC8571_PD_100_KOHM idle_bus
        = DAC8571_Write (sim_hal all_ok) (Some (bound_handle\<lparr>writeMode := 0x01\<rparr>)) pdValue
            idle_bus \<and>
      DAC8571_PowerMode (sim_hal all_ok) (Some bound_handle) DAC8571_PD_100_KOHM idle_bus
        = (status, Some h', w') \<and>
      writeMode h' = 0x01)"
proof -
  have pd: "(DAC8571_PD_100_KOHM = DAC8571_PD_LOW_POWER \<and> (0b110 :: 16 word) = 0b000)
         \<or> (DAC8571_PD_100_KOHM = DAC8571_PD_FAST \<and> (0b110 :: 16 word) = 0b001)
         \<or> (DAC8571_PD_100_KOHM = DAC8571_PD_1_KOHM \<and> (0b110 :: 16 word) = 0b010)
         \<or> (DAC8571_PD_100_KOHM = DAC8571_PD_100_KOHM \<and> (0b110 :: 16 word) = 0b110)
         \<or> (DAC8571_PD_100_KOHM = DAC8571_PD_HI_Z \<and> (0b110 :: 16 word) = 0b111)"
    by simp
  have "DAC8571_PD_100_KOHM = 0x03" "writeMode bound_handle = 0x10"
    by (simp_all add: bound_handle_def DAC8571_consts)
  with C4_PowerMode_field_and_mode [OF pd, of "sim_hal all_ok" bound_handle idle_bus]
  show ?thesis by blast
qed

text \<open>
  Claim C6, at the input where the code departs from it. \<^verbatim>\<open>DAC8571_PowerMode\<close> with
  the unrecognised mode 0xFF on a handle whose write mode is 0x10 returns
  \<^verbatim>\<open>HAL_ERROR\<close> and leaves the bus alone, but the handle it returns has write mode
  0x01: the assignment to \<open>writeMode\<close> comes before the \<^verbatim>\<open>switch\<close> that rejects the
  mode.
\<close>

theorem C6_PowerMode_invalid_mode_changes_handle:
  "DAC8571_PowerMode (sim_hal all_ok) (Some bound_handle) 0xFF idle_bus
     = (HAL_ERROR, Some (bound_handle\<lparr>writeMode := 0x01\<rparr>), idle_bus)
   \<and> writeMode bound_handle = 0x10"
  by (simp add: DAC8571_PowerMode_def PowerMode_pdValue_def bound_handle_def DAC8571_consts)

text \<open>
  The other rejections do leave the handle and the bus as they were: a voltage out of
  range, an unrecognised write mode, a null transport or an address that is not one of
  the two. \<^verbatim>\<open>DAC8571_PowerMode\<close> with an unrecognised mode leaves the bus alone and the
  handle with the write mode 0x01, whatever the handle was.
\<close>

lemma rejected_calls:
  "float_less voltage 0 \<or> float_greater voltage DAC8571_REF_VOLTAGE \<Longrightarrow>
     DAC8571_SetVoltage hal (Some h) voltage w = Some (HAL_ERROR, Some h, w)"
  "mode \<notin> {0x00, 0x01, 0x10, 0x11, 0x20, 0x30, 0x31, 0x33} \<Longrightarrow>
     DAC8571_SetWriteMode (Some h) mode = (HAL_ERROR, Some h)"
  "p = None \<or> (addr \<noteq> 0x4C \<and> addr \<noteq> 0x4E) \<Longrightarrow>
     DAC8571_Init hal (Some h) p addr w = (Some h, w)"
  "PowerMode_pdValue pdMode = None \<Longrightarrow>
     DAC8571_PowerMode hal (Some h) pdMode w
       = (HAL_ERROR, Some (h\<lparr>writeMode := DAC8571_CMD_WRITE_TMP_PWDN\<rparr>), w)"
  by (auto simp: DAC8571_SetVoltage_def DAC8571_SetWriteMode_def DAC8571_Init_def
      DAC8571_PowerMode_def DAC8571_consts)

subsection \<open>Write mode\<close>

text \<open>
  Claim C7. On a non-null handle \<^verbatim>\<open>DAC8571_SetWriteMode\<close> stores the mode and returns
  \<^verbatim>\<open>HAL_OK\<close> exactly for the eight command bytes 0x00, 0x01, 0x10, 0x11, 0x20, 0x30,
  0x31 and 0x33; for every other byte it returns \<^verbatim>\<open>HAL_ERROR\<close> and the handle, the
  stored write mode included, is what it was.
\<close>

theorem C7_SetWriteMode_accepts_exactly_eight:
  "DAC8571_SetWriteMode (Some h) mode =
     (if mode \<in> {0x00, 0x01, 0x10, 0x11, 0x20, 0x30, 0x31, 0x33}
      then (HAL_OK, Some (h\<lparr>writeMode := mode\<rparr>))
      else (HAL_ERROR, Some h))"
  by (simp add: DAC8571_SetWriteMode_def DAC8571_consts)

theorem C7_SetWriteMode_accepts_exactly_eight_witness:
  "DAC8571_SetWriteMode (Some bound_handle) 0x31
     = (HAL_OK, Some (bound_handle\<lparr>writeMode := 0x31\<rparr>))
   \<and> DAC8571_SetWriteMode (Some bound_handle) 0x32 = (HAL_ERROR, Some bound_handle)"
  using C7_SetWriteMode_accepts_exactly_eight [of bound_handle "0x31"]
    C7_SetWriteMode_accepts_exactly_eight [of bound_handle "0x32"]
  by simp

subsection \<open>Round trip\<close>

lemma bytes_join:
  "push_bit 8 (ucast (ucast (drop_bit 8 x) :: 8 word)) OR ucast (ucast (x AND 0xFF) :: 8 word)
     = (x :: 16 word)"
proof -
  have m: "(0xFF :: 16 word) = mask 8" by (simp add: mask_eq_exp_minus_1)
  show ?thesis unfolding m
    by (rule bit_word_eqI) (auto simp: bit_simps)
qed

lemma sim_all_ok_faithful: "faithful_loopback (sim_hal all_ok)"
  by (auto simp: faithful_loopback_def sim_hal_def sim_transmit_def sim_receive_def all_ok_def)

text \<open>
  Claim C9. Over a transport that is a faithful loopback, a \<^verbatim>\<open>DAC8571_Write\<close> of any
  16-bit value \<open>x\<close> that returns \<^verbatim>\<open>HAL_OK\<close>, followed by \<^verbatim>\<open>DAC8571_Read\<close> on the same
  handle, reads \<open>x\<close> back.
\<close>

theorem C9_Write_then_Read:
  assumes "faithful_loopback hal"
    and "DAC8571_Write hal (Some h) x w = (HAL_OK, hp, w')"
  shows "fst (DAC8571_Read hal hp w') = x"
proof -
  obtain status w1 where tx: "Master_Transmit hal w (hi2c h) (push_bit 1 (address h))
      [writeMode h, ucast (drop_bit 8 x), ucast (x AND 0xFF)] 100 = (status, w1)"
    by (cases "Master_Transmit hal w (hi2c h) (push_bit 1 (address h))
      [writeMode h, ucast (drop_bit 8 x), ucast (x AND 0xFF)] 100")
  from assms(2) tx have st: "status = HAL_OK" and w1: "w1 = w'"
    and hp: "hp = Some (h\<lparr>lastValue := x, lastError := DAC8571_OK\<rparr>)"
    by (auto simp: DAC8571_Write_def split: if_splits)
  from assms(1) tx st w1 obtain rest w'' where
    "Master_Receive hal w' (hi2c h) (push_bit 1 (address h) OR 0x01) 3 HAL_MAX_DELAY
       = (HAL_OK, ucast (drop_bit 8 x) # ucast (x AND 0xFF) # rest, w'')"
    unfolding faithful_loopback_def by blast
  then show ?thesis
    by (simp add: DAC8571_Read_def hp bytes_join)
qed

theorem C9_Write_then_Read_witness:
  "faithful_loopback (sim_hal all_ok)
   \<and> fst (DAC8571_Write (sim_hal all_ok) (Some bound_handle) 0xABCD idle_bus) = HAL_OK
   \<and> fst (DAC8571_Read (sim_hal all_ok)
        (fst (snd (DAC8571_Write (sim_hal all_ok) (Some bound_handle) 0xABCD idle_bus)))
        (snd (snd (DAC8571_Write (sim_hal all_ok) (Some bound_handle) 0xABCD idle_bus))))
      = 0xABCD"
proof -
  have ok: "fst (DAC8571_Write (sim_hal all_ok) (Some bound_handle) 0xABCD idle_bus) = HAL_OK"
    by (simp add: DAC8571_Write_def sim_hal_def sim_transmit_def all_ok_def)
  then have eq: "DAC8571_Write (sim_hal all_ok) (Some bound_handle) 0xABCD idle_bus =
    (HAL_OK, fst (snd (DAC8571_Write (sim_hal all_ok) (Some bound_handle) 0xABCD idle_bus)),
      snd (snd (DAC8571_Write (sim_hal all_ok) (Some bound_handle) 0xABCD idle_bus)))"
    by (metis prod.collapse)
  show ?thesis
    using sim_all_ok_faithful ok C9_Write_then_Read [OF sim_all_ok_faithful eq] by simp
qed

subsection \<open>Writing an array\<close>

text \<open>
  The loop of \<^verbatim>\<open>DAC8571_WriteArray\<close> over an array that holds at least \<open>len\<close> elements
  is the sequence of writes of the specification, from index \<open>i\<close> on.
\<close>

lemma WriteArray_loop_Write_each:
  "len \<le> length arr \<Longrightarrow> len - i = n \<Longrightarrow>
   WriteArray_loop hal hp arr len i w = Some (Write_each hal hp (drop i (take len arr)) w)"
proof (induction n arbitrary: i hp w)
  case 0
  then show ?case by (simp add: WriteArray_loop.simps [of hal hp arr len i w])
next
  case (Suc n)
  then have lt: "i < len" and i: "i < length arr" by simp_all
  then have d: "drop i (take len arr) = arr ! i # drop (i + 1) (take len arr)"
    by (simp add: Cons_nth_drop_Suc [symmetric])
  obtain st hp' w' where wr: "DAC8571_Write hal hp (arr ! i) w = (st, hp', w')"
    by (cases "DAC8571_Write hal hp (arr ! i) w")
  have "WriteArray_loop hal hp' arr len (i + 1) w'
      = Some (Write_each hal hp' (drop (i + 1) (take len arr)) w')"
    using Suc.IH [of "i + 1" hp' w'] Suc.prems by simp
  with lt i wr d show ?case
    by (simp add: WriteArray_loop.simps [of hal hp arr len i w])
qed

text \<open>
  Claim C3 says that a call with a null sequence, length 0 or length above 14 sets
  \<open>lastError\<close> to \<open>BUFFER_ERROR\<close> exactly when the length is above 14. With a null
  sequence and length 20 the call returns \<^verbatim>\<open>HAL_ERROR\<close> from the first check, and
  \<open>lastError\<close> is not touched.
\<close>

theorem C3_WriteArray_counterexample:
  "(14 :: 8 word) < 20
   \<and> DAC8571_WriteArray (sim_hal all_ok) (Some bound_handle) None 20 idle_bus
       = Some (HAL_ERROR, Some bound_handle, idle_bus)
   \<and> lastError bound_handle \<noteq> DAC8571_BUFFER_ERROR"
  by (simp add: DAC8571_WriteArray_def bound_handle_def DAC8571_consts)


text \<open>
  Claim C3, amended. \<^verbatim>\<open>DAC8571_WriteArray\<close> with a null handle, a null sequence, length
  0 or length above 14 returns \<^verbatim>\<open>HAL_ERROR\<close> and makes no HAL call (the state behind
  the HAL is returned as it was); it sets \<open>lastError\<close> to \<open>BUFFER_ERROR\<close> exactly when
  handle and sequence are non-null and the length is above 14, and otherwise leaves
  the handle as it was. For a length from 1 to 14 and a sequence that holds that many
  elements, it is one \<^verbatim>\<open>DAC8571_Write\<close> per element, in order, that stops at the first
  failing write and returns its status.
\<close>

theorem C3_WriteArray_amended:
  "DAC8571_WriteArray hal None arr len w = Some (HAL_ERROR, None, w)
   \<and> (arr = None \<or> len = 0 \<or> 14 < len \<longrightarrow>
        DAC8571_WriteArray hal (Some h) arr len w =
          Some (HAL_ERROR,
                Some (if arr \<noteq> None \<and> 14 < len then h\<lparr>lastError := DAC8571_BUFFER_ERROR\<rparr>
                      else h), w))
   \<and> (1 \<le> len \<and> len \<le> 14 \<and> unat len \<le> length a \<longrightarrow>
        DAC8571_WriteArray hal (Some h) (Some a) len w =
          Some (Write_each hal (Some h) (take (unat len) a) w))"
proof (intro conjI impI)
  show "DAC8571_WriteArray hal None arr len w = Some (HAL_ERROR, None, w)"
    by (simp add: DAC8571_WriteArray_def)
next
  assume "arr = None \<or> len = 0 \<or> 14 < len"
  then show "DAC8571_WriteArray hal (Some h) arr len w =
          Some (HAL_ERROR,
                Some (if arr \<noteq> None \<and> 14 < len then h\<lparr>lastError := DAC8571_BUFFER_ERROR\<rparr>
                      else h), w)"
    by (cases arr) (auto simp: DAC8571_WriteArray_def)
next
  assume a: "1 \<le> len \<and> len \<le> 14 \<and> unat len \<le> length a"
  then have "len \<noteq> 0" "\<not> 14 < len" by auto
  with a show "DAC8571_WriteArray hal (Some h) (Some a) len w =
          Some (Write_each hal (Some h) (take (unat len) a) w)"
    by (simp add: DAC8571_WriteArray_def WriteArray_loop_Write_each [where n = "unat len"])
qed

theorem C3_WriteArray_amended_witness:
  "DAC8571_WriteArray (sim_hal all_ok) (Some bound_handle) (Some [0x0000, 0x8000, 0xFFFF]) 20 idle_bus
     = Some (HAL_ERROR, Some (bound_handle\<lparr>lastError := DAC8571_BUFFER_ERROR\<rparr>), idle_bus)
   \<and> DAC8571_WriteArray (sim_hal all_ok) (Some bound_handle) (Some [0x0000, 0x8000, 0xFFFF]) 0 idle_bus
     = Some (HAL_ERROR, Some bound_handle, idle_bus)
   \<and> DAC8571_WriteArray (sim_hal all_ok) (Some bound_handle) (Some [0x0000, 0x8000, 0xFFFF]) 3 idle_bus
     = Some (HAL_OK, Some (bound_handle\<lparr>lastValue := 0xFFFF\<rparr>),
         \<lparr>reg_hi = 0xFF, reg_lo = 0xFF,
          trace = [Transmit (Some 1) 0x98 [0x10, 0x00, 0x00] 100,
                   Transmit (Some 1) 0x98 [0x10, 0x80, 0x00] 100,
                   Transmit (Some 1) 0x98 [0x10, 0xFF, 0xFF] 100]\<rparr>)
   \<and> DAC8571_WriteArray (sim_hal second_fails) (Some bound_handle) (Some [0x0000, 0x8000, 0xFFFF]) 3 idle_bus
     = Some (HAL_BUSY, Some (bound_handle\<lparr>lastError := DAC8571_I2C_ERROR\<rparr>),
         \<lparr>reg_hi = 0, reg_lo = 0,
          trace = [Transmit (Some 1) 0x98 [0x10, 0x00, 0x00] 100,
                   Transmit (Some 1) 0x98 [0x10, 0x80, 0x00] 100]\<rparr>)"
proof -
  have e: "Write_each (sim_hal all_ok) (Some bound_handle) (take (unat (3 :: 8 word)) [0x0000, 0x8000, 0xFFFF]) idle_bus
     = (HAL_OK, Some (bound_handle\<lparr>lastValue := 0xFFFF\<rparr>),
         \<lparr>reg_hi = 0xFF, reg_lo = 0xFF,
          trace = [Transmit (Some 1) 0x98 [0x10, 0x00, 0x00] 100,
                   Transmit (Some 1) 0x98 [0x10, 0x80, 0x00] 100,
                   Transmit (Some 1) 0x98 [0x10, 0xFF, 0xFF] 100]\<rparr>)"
    by (simp add: DAC8571_Write_def sim_hal_def sim_transmit_def all_ok_def idle_bus_def
        bound_handle_def DAC8571_consts)
  have f: "Write_each (sim_hal second_fails) (Some bound_handle) (take (unat (3 :: 8 word)) [0x0000, 0x8000, 0xFFFF]) idle_bus
     = (HAL_BUSY, Some (bound_handle\<lparr>lastError := DAC8571_I2C_ERROR\<rparr>),
         \<lparr>reg_hi = 0, reg_lo = 0,
          trace = [Transmit (Some 1) 0x98 [0x10, 0x00, 0x00] 100,
                   Transmit (Some 1) 0x98 [0x10, 0x80, 0x00] 100]\<rparr>)"
    by (simp add: DAC8571_Write_def sim_hal_def sim_transmit_def second_fails_def idle_bus_def
        bound_handle_def DAC8571_consts)
  show ?thesis
    using C3_WriteArray_amended [of "sim_hal all_ok" "Some [0x0000, 0x8000, 0xFFFF]" 20 idle_bus bound_handle "[]"]
      C3_WriteArray_amended [of "sim_hal all_ok" "Some [0x0000, 0x8000, 0xFFFF]" 0 idle_bus bound_handle "[]"]
      C3_WriteArray_amended [of "sim_hal all_ok" None 3 idle_bus bound_handle "[0x0000, 0x8000, 0xFFFF]"]
      C3_WriteArray_amended [of "sim_hal second_fails" None 3 idle_bus bound_handle "[0x0000, 0x8000, 0xFFFF]"]
      e f
    by simp
qed

subsection \<open>The effect of each driver function on the handle\<close>

lemma bus_effect_refl: "bus_effect h h"
  by (simp add: bus_effect_def)

lemma bus_effect_trans: "bus_effect h h' \<Longrightarrow> bus_effect h' h'' \<Longrightarrow> bus_effect h h''"
  by (auto simp: bus_effect_def)

lemma Write_effect:
  assumes "DAC8571_Write hal (Some h) val w = (st, hp, w')"
  shows "\<exists>h'. hp = Some h' \<and> bus_effect h h' \<and>
           lastError h' = (if st = HAL_OK then DAC8571_OK else DAC8571_I2C_ERROR)"
proof -
  obtain status w1 where "Master_Transmit hal w (hi2c h) (push_bit 1 (address h))
      [writeMode h, ucast (drop_bit 8 val), ucast (val AND 0xFF)] 100 = (status, w1)"
    by (cases "Master_Transmit hal w (hi2c h) (push_bit 1 (address h))
      [writeMode h, ucast (drop_bit 8 val), ucast (val AND 0xFF)] 100")
  with assms show ?thesis
    by (auto simp: DAC8571_Write_def bus_effect_def split: if_splits)
qed

lemma IsConnected_effect:
  assumes "DAC8571_IsConnected hal (Some h) w = (st, hp, w')"
  shows "\<exists>h'. hp = Some h' \<and> bus_effect h h' \<and>
           lastError h' = (if st = HAL_OK then lastError h else DAC8571_I2C_ERROR)"
proof -
  obtain status w1 where
    "IsDeviceReady hal w (hi2c h) (push_bit 1 (address h)) 1 10 = (status, w1)"
    by (cases "IsDeviceReady hal w (hi2c h) (push_bit 1 (address h)) 1 10")
  with assms show ?thesis
    by (auto simp: DAC8571_IsConnected_def bus_effect_def split: if_splits)
qed

lemma Read_effect:
  assumes "Master_Receive hal w (hi2c h) (push_bit 1 (address h) OR 0x01) 3 HAL_MAX_DELAY
             = (st, rx, w')"
  shows "\<exists>val h'. DAC8571_Read hal (Some h) w = (val, Some h', w') \<and> bus_effect h h' \<and>
           lastError h' = (if st = HAL_OK then DAC8571_OK else DAC8571_I2C_ERROR)"
  using assms by (auto simp: DAC8571_Read_def bus_effect_def Let_def)

lemma Write_each_effect:
  "Write_each hal (Some h) xs w = (st, hp, w') \<Longrightarrow>
   \<exists>h'. hp = Some h' \<and> bus_effect h h' \<and>
     (st \<noteq> HAL_OK \<longrightarrow> lastError h' = DAC8571_I2C_ERROR) \<and>
     (st = HAL_OK \<and> xs \<noteq> [] \<longrightarrow> lastError h' = DAC8571_OK)"
proof (induction xs arbitrary: h w)
  case Nil
  then show ?case by (auto simp: bus_effect_refl)
next
  case (Cons x xs)
  obtain s1 hp1 w1 where wr: "DAC8571_Write hal (Some h) x w = (s1, hp1, w1)"
    by (cases "DAC8571_Write hal (Some h) x w")
  from Write_effect [OF wr] obtain h1 where h1: "hp1 = Some h1" "bus_effect h h1"
    "lastError h1 = (if s1 = HAL_OK then DAC8571_OK else DAC8571_I2C_ERROR)" by blast
  show ?case
  proof (cases "s1 = HAL_OK")
    case False
    with Cons.prems wr h1 show ?thesis by auto
  next
    case True
    with Cons.prems wr h1 have rest: "Write_each hal (Some h1) xs w1 = (st, hp, w')" by simp
    from Cons.IH [OF rest] obtain h' where h': "hp = Some h'" "bus_effect h1 h'"
      "st \<noteq> HAL_OK \<longrightarrow> lastError h' = DAC8571_I2C_ERROR"
      "st = HAL_OK \<and> xs \<noteq> [] \<longrightarrow> lastError h' = DAC8571_OK" by blast
    have "st = HAL_OK \<Longrightarrow> xs = [] \<Longrightarrow> lastError h' = DAC8571_OK"
      using rest h1 True h'(1) by simp
    with h' h1 show ?thesis by (auto intro: bus_effect_trans)
  qed
qed

lemma Init_probe_effect:
  "Init_probe hal (Some h) attempt w = (c, hp, w') \<Longrightarrow>
   \<exists>h'. hp = Some h' \<and> bus_effect h h' \<and>
         (lastError h' = lastError h \<or> lastError h' = DAC8571_I2C_ERROR)"
proof (induction "nat (6 - attempt)" arbitrary: attempt h w)
  case 0
  then show ?case by (auto simp: Init_probe.simps [of hal "Some h" attempt w] bus_effect_refl)
next
  case (Suc n)
  then have le: "attempt \<le> 5" by simp
  obtain st hp1 w1 where ic: "DAC8571_IsConnected hal (Some h) w = (st, hp1, w1)"
    by (cases "DAC8571_IsConnected hal (Some h) w")
  from IsConnected_effect [OF ic] obtain h1 where h1: "hp1 = Some h1" "bus_effect h h1"
    "lastError h1 = (if st = HAL_OK then lastError h else DAC8571_I2C_ERROR)" by blast
  show ?case
  proof (cases "st = HAL_OK")
    case True
    with Suc.prems le ic h1 show ?thesis
      by (auto simp: Init_probe.simps [of hal "Some h" attempt w])
  next
    case False
    with Suc.prems le ic h1
    have rest: "Init_probe hal (Some h1) (attempt + 1) (Delay hal w1 25) = (c, hp, w')"
      by (simp add: Init_probe.simps [of hal "Some h" attempt w])
    have "n = nat (6 - (attempt + 1))" using Suc.hyps(2) by simp
    from Suc.hyps(1) [OF this rest] False h1 show ?thesis
      by (auto intro: bus_effect_trans)
  qed
qed


lemma Init_accepted:
  assumes "p \<noteq> None" and "addr = 0x4C \<or> addr = 0x4E"
  shows "DAC8571_Init hal (Some h) p addr w =
     snd (Init_probe hal
            (Some (h\<lparr>hi2c := p, address := ucast addr, lastValue := 0,
                     writeMode := DAC8571_CMD_WRITE_AND_UPDATE_DAC,
                     lastError := DAC8571_OK\<rparr>)) 1
            (if Get_Flag_Busy hal w p then Clear_Flag_Busy hal w p else w))"
  using assms by (auto simp: DAC8571_Init_def Let_def split: prod.splits)

lemma Init_rejected:
  assumes "p = None \<or> (addr \<noteq> 0x4C \<and> addr \<noteq> 0x4E)"
  shows "DAC8571_Init hal (Some h) p addr w = (Some h, w)"
  using assms by (auto simp: DAC8571_Init_def)

lemma Init_effect:
  assumes "DAC8571_Init hal (Some h) p addr w = (hp, w')"
  shows "\<exists>h'. hp = Some h' \<and>
     (if p \<noteq> None \<and> (addr = 0x4C \<or> addr = 0x4E)
      then hi2c h' = p \<and> address h' = ucast addr \<and>
           writeMode h' = DAC8571_CMD_WRITE_AND_UPDATE_DAC \<and>
           (lastError h' = DAC8571_OK \<or> lastError h' = DAC8571_I2C_ERROR)
      else h' = h \<and> w' = w)"
proof (cases "p \<noteq> None \<and> (addr = 0x4C \<or> addr = 0x4E)")
  case False
  with assms Init_rejected [of p addr hal h w] show ?thesis by auto
next
  case True
  define h1 where "h1 = h\<lparr>hi2c := p, address := ucast addr, lastValue := 0,
                       writeMode := DAC8571_CMD_WRITE_AND_UPDATE_DAC,
                       lastError := DAC8571_OK\<rparr>"
  define w1 where "w1 = (if Get_Flag_Busy hal w p then Clear_Flag_Busy hal w p else w)"
  obtain c hp2 w2 where pr: "Init_probe hal (Some h1) 1 w1 = (c, hp2, w2)"
    by (cases "Init_probe hal (Some h1) 1 w1")
  from True have "DAC8571_Init hal (Some h) p addr w = snd (Init_probe hal (Some h1) 1 w1)"
    unfolding h1_def w1_def by (intro Init_accepted) auto
  with assms pr have "hp = hp2" by simp
  with Init_probe_effect [OF pr] True show ?thesis
    by (auto simp: bus_effect_def h1_def)
qed

lemma WriteArray_loop_effect:
  "len - i = n \<Longrightarrow> WriteArray_loop hal (Some h) arr len i w = Some (st, hp, w') \<Longrightarrow>
   \<exists>h'. hp = Some h' \<and> bus_effect h h' \<and>
     (st \<noteq> HAL_OK \<longrightarrow> lastError h' = DAC8571_I2C_ERROR) \<and>
     (st = HAL_OK \<and> i < len \<longrightarrow> lastError h' = DAC8571_OK)"
proof (induction n arbitrary: i h w)
  case 0
  then show ?case
    by (auto simp: WriteArray_loop.simps [of hal "Some h" arr len i w] bus_effect_refl)
next
  case (Suc n)
  then have lt: "i < len" by simp
  with Suc.prems(2) have i: "i < length arr"
    by (auto simp: WriteArray_loop.simps [of hal "Some h" arr len i w] split: if_splits)
  obtain s1 hp1 w1 where wr: "DAC8571_Write hal (Some h) (arr ! i) w = (s1, hp1, w1)"
    by (cases "DAC8571_Write hal (Some h) (arr ! i) w")
  from Write_effect [OF wr] obtain h1 where h1: "hp1 = Some h1" "bus_effect h h1"
    "lastError h1 = (if s1 = HAL_OK then DAC8571_OK else DAC8571_I2C_ERROR)" by blast
  show ?case
  proof (cases "s1 = HAL_OK")
    case False
    with Suc.prems(2) lt i wr h1 show ?thesis
      by (auto simp: WriteArray_loop.simps [of hal "Some h" arr len i w])
  next
    case True
    with Suc.prems(2) lt i wr h1
    have rest: "WriteArray_loop hal (Some h1) arr len (i + 1) w1 = Some (st, hp, w')"
      by (simp add: WriteArray_loop.simps [of hal "Some h" arr len i w])
    have n: "len - (i + 1) = n" using Suc.prems(1) by simp
    from Suc.IH [OF n rest] obtain h' where h': "hp = Some h'" "bus_effect h1 h'"
      "st \<noteq> HAL_OK \<longrightarrow> lastError h' = DAC8571_I2C_ERROR"
      "st = HAL_OK \<and> i + 1 < len \<longrightarrow> lastError h' = DAC8571_OK" by blast
    have "st = HAL_OK \<Longrightarrow> \<not> i + 1 < len \<Longrightarrow> lastError h' = DAC8571_OK"
      using rest h1 True h'(1)
      by (simp add: WriteArray_loop.simps [of hal "Some h1" arr len "Suc i" w1])
    with h' h1 show ?thesis by (auto intro: bus_effect_trans)
  qed
qed

lemma WriteArray_effect:
  assumes "DAC8571_WriteArray hal (Some h) arr len w = Some (st, hp, w')"
  shows "\<exists>h'. hp = Some h' \<and> address h' = address h \<and> writeMode h' = writeMode h \<and>
     (lastError h' = lastError h \<or> lastError h' = DAC8571_OK
      \<or> lastError h' = DAC8571_I2C_ERROR \<or> lastError h' = DAC8571_BUFFER_ERROR) \<and>
     (arr \<noteq> None \<and> len \<noteq> 0 \<and> len \<le> 14 \<longrightarrow>
        lastError h' = (if st = HAL_OK then DAC8571_OK else DAC8571_I2C_ERROR))"
proof (cases "arr = None \<or> len = 0 \<or> 14 < len")
  case True
  with assms show ?thesis
    by (cases arr) (auto simp: DAC8571_WriteArray_def split: if_splits)
next
  case False
  then obtain a where a: "arr = Some a" by auto
  with False assms have lp: "WriteArray_loop hal (Some h) a (unat len) 0 w = Some (st, hp, w')"
    by (simp add: DAC8571_WriteArray_def)
  from False have "0 < unat len" by (simp add: unat_gt_0)
  with WriteArray_loop_effect [OF refl lp] False show ?thesis
    by (auto simp: bus_effect_def)
qed

lemma SetVoltage_effect:
  assumes "DAC8571_SetVoltage hal (Some h) voltage w = Some (st, hp, w')"
  shows "(float_less voltage 0 \<or> float_greater voltage DAC8571_REF_VOLTAGE)
           \<and> st = HAL_ERROR \<and> hp = Some h \<and> w' = w
         \<or> \<not> float_less voltage 0 \<and> \<not> float_greater voltage DAC8571_REF_VOLTAGE
           \<and> (\<exists>val. DAC8571_Write hal (Some h) val w = (st, hp, w'))"
  using assms
  by (auto simp: DAC8571_SetVoltage_def split: if_splits c_float.splits option.splits)

lemma PowerMode_effect:
  assumes "DAC8571_PowerMode hal (Some h) pdMode w = (st, hp, w')"
  shows "PowerMode_pdValue pdMode = None \<and> st = HAL_ERROR
           \<and> hp = Some (h\<lparr>writeMode := DAC8571_CMD_WRITE_TMP_PWDN\<rparr>) \<and> w' = w
         \<or> (\<exists>val. PowerMode_pdValue pdMode = Some val \<and>
              DAC8571_Write hal (Some (h\<lparr>writeMode := DAC8571_CMD_WRITE_TMP_PWDN\<rparr>)) val w
                = (st, hp, w'))"
  using assms by (cases "PowerMode_pdValue pdMode") (auto simp: DAC8571_PowerMode_def Let_def)

lemma driver_call_effect:
  assumes "driver_call hal op (Some h) w = Some (hp, w')"
  shows "\<exists>h'. hp = Some h' \<and>
     (valid_handle h \<longrightarrow> valid_handle h') \<and>
     (lastError h' = lastError h \<or> lastError h' = DAC8571_OK
      \<or> lastError h' = DAC8571_I2C_ERROR \<or> lastError h' = DAC8571_BUFFER_ERROR) \<and>
     ((\<forall>p a. op \<noteq> Op_Init p a) \<longrightarrow> address h' = address h) \<and>
     ((\<forall>p a. op \<noteq> Op_Init p a) \<and> (\<forall>m. op \<noteq> Op_SetWriteMode m)
        \<and> (\<forall>m. op \<noteq> Op_PowerMode m) \<longrightarrow> writeMode h' = writeMode h)"
proof (cases op)
  case (Op_Init p addr)
  with assms have "DAC8571_Init hal (Some h) p addr w = (hp, w')" by simp
  from Init_effect [OF this] Op_Init show ?thesis
    by (auto simp: valid_handle_def DAC8571_consts split: if_splits)
next
  case (Op_Write val)
  with assms have "DAC8571_Write hal (Some h) val w = (fst (DAC8571_Write hal (Some h) val w), hp, w')"
    by (metis driver_call.simps(2) option.inject prod.collapse)
  from Write_effect [OF this] Op_Write show ?thesis
    by (auto simp: valid_handle_def bus_effect_def split: if_splits)
next
  case Op_IsConnected
  with assms have "DAC8571_IsConnected hal (Some h) w = (fst (DAC8571_IsConnected hal (Some h) w), hp, w')"
    by (metis driver_call.simps(3) option.inject prod.collapse)
  from IsConnected_effect [OF this] Op_IsConnected show ?thesis
    by (auto simp: valid_handle_def bus_effect_def split: if_splits)
next
  case (Op_WriteArray arr len)
  with assms obtain st where "DAC8571_WriteArray hal (Some h) arr len w = Some (st, hp, w')"
    by auto
  from WriteArray_effect [OF this] Op_WriteArray show ?thesis
    by (auto simp: valid_handle_def)
next
  case Op_Read
  obtain st rx w1 where rc: "Master_Receive hal w (hi2c h) (push_bit 1 (address h) OR 0x01) 3
      HAL_MAX_DELAY = (st, rx, w1)"
    by (cases "Master_Receive hal w (hi2c h) (push_bit 1 (address h) OR 0x01) 3 HAL_MAX_DELAY")
  from Read_effect [OF rc] Op_Read assms show ?thesis
    by (auto simp: valid_handle_def bus_effect_def)
next
  case (Op_SetVoltage voltage)
  with assms obtain st where "DAC8571_SetVoltage hal (Some h) voltage w = Some (st, hp, w')"
    by auto
  from SetVoltage_effect [OF this] Op_SetVoltage show ?thesis
    by (auto simp: valid_handle_def bus_effect_def dest!: Write_effect)
next
  case (Op_SetWriteMode mode)
  with assms show ?thesis
    by (auto simp: DAC8571_SetWriteMode_def valid_handle_def DAC8571_consts split: if_splits)
next
  case Op_GetWriteMode
  with assms show ?thesis by auto
next
  case (Op_PowerMode pdMode)
  with assms have "DAC8571_PowerMode hal (Some h) pdMode w
      = (fst (DAC8571_PowerMode hal (Some h) pdMode w), hp, w')"
    by (metis driver_call.simps(9) option.inject prod.collapse)
  from PowerMode_effect [OF this] Op_PowerMode show ?thesis
    by (auto simp: valid_handle_def bus_effect_def DAC8571_consts dest!: Write_effect)
next
  case (Op_WakeUp val)
  with assms have "DAC8571_Write hal (Some h) val w
      = (fst (DAC8571_Write hal (Some h) val w), hp, w')"
    by (metis DAC8571_WakeUp_def driver_call.simps(10) option.inject option.simps(5)
        prod.collapse)
  from Write_effect [OF this] Op_WakeUp show ?thesis
    by (auto simp: valid_handle_def bus_effect_def split: if_splits)
next
  case Op_Reset
  with assms have "DAC8571_Write hal (Some h) 0 w
      = (fst (DAC8571_Write hal (Some h) 0 w), hp, w')"
    by (metis DAC8571_Reset_def driver_call.simps(11) option.inject option.simps(5)
        prod.collapse)
  from Write_effect [OF this] Op_Reset show ?thesis
    by (auto simp: valid_handle_def bus_effect_def split: if_splits)
next
  case Op_GetLastError
  with assms show ?thesis
    by (auto simp: DAC8571_GetLastError_def valid_handle_def)
next
  case Op_GetAddress
  with assms show ?thesis by auto
qed

lemma driver_calls_effect:
  "driver_calls hal ops (Some h) w = Some (hp, w') \<Longrightarrow>
   \<exists>h'. hp = Some h' \<and> (valid_handle h \<longrightarrow> valid_handle h') \<and>
     (lastError h \<noteq> DAC8571_ADDRESS_ERROR \<longrightarrow> lastError h' \<noteq> DAC8571_ADDRESS_ERROR)"
proof (induction ops arbitrary: h w)
  case Nil
  then show ?case by auto
next
  case (Cons op ops)
  then obtain hp1 w1 where c1: "driver_call hal op (Some h) w = Some (hp1, w1)"
    and rest: "driver_calls hal ops hp1 w1 = Some (hp, w')"
    by (auto split: option.splits)
  from driver_call_effect [OF c1] obtain h1 where h1: "hp1 = Some h1"
    "valid_handle h \<longrightarrow> valid_handle h1"
    "lastError h1 = lastError h \<or> lastError h1 = DAC8571_OK
      \<or> lastError h1 = DAC8571_I2C_ERROR \<or> lastError h1 = DAC8571_BUFFER_ERROR"
    by blast
  from Cons.IH [of h1 w1] rest h1 obtain h' where "hp = Some h'"
    "valid_handle h1 \<longrightarrow> valid_handle h'"
    "lastError h1 \<noteq> DAC8571_ADDRESS_ERROR \<longrightarrow> lastError h' \<noteq> DAC8571_ADDRESS_ERROR"
    by auto
  with h1 show ?case by (auto simp: DAC8571_consts)
qed

subsection \<open>The last error\<close>

lemma GetLastError_repeat_step:
  "GetLastError_repeat (Suc n) (Some h) =
     (lastError h # fst (GetLastError_repeat n (Some (h\<lparr>lastError := DAC8571_OK\<rparr>))),
      snd (GetLastError_repeat n (Some (h\<lparr>lastError := DAC8571_OK\<rparr>))))"
  by (simp add: DAC8571_GetLastError_def split: prod.splits)

lemma GetLastError_repeat_Some:
  "GetLastError_repeat (Suc n) (Some h) =
     (lastError h # replicate n DAC8571_OK, Some (h\<lparr>lastError := DAC8571_OK\<rparr>))"
proof (induction n arbitrary: h)
  case 0
  show ?case by (simp add: DAC8571_GetLastError_def)
next
  case (Suc n)
  show ?case
    by (subst GetLastError_repeat_step) (simp add: Suc.IH del: GetLastError_repeat.simps)
qed

lemma GetLastError_repeat_OK:
  "lastError h = DAC8571_OK \<Longrightarrow>
   fst (GetLastError_repeat n (Some h)) = replicate n DAC8571_OK"
  by (cases n) (simp_all add: GetLastError_repeat_Some del: GetLastError_repeat.simps(2))

lemma Write_like_outcome:
  assumes "DAC8571_Write hal (Some h) val w = (st, hp, w')
         \<or> DAC8571_WakeUp hal (Some h) val w = (st, hp, w')
         \<or> DAC8571_Reset hal (Some h) w = (st, hp, w')
         \<or> (PowerMode_pdValue pdMode \<noteq> None \<and>
              DAC8571_PowerMode hal (Some h) pdMode w = (st, hp, w'))
         \<or> (len \<noteq> 0 \<and> len \<le> 14 \<and>
              DAC8571_WriteArray hal (Some h) (Some a) len w = Some (st, hp, w'))
         \<or> (\<not> float_less voltage 0 \<and> \<not> float_greater voltage DAC8571_REF_VOLTAGE \<and>
              DAC8571_SetVoltage hal (Some h) voltage w = Some (st, hp, w'))"
  shows "\<exists>h'. hp = Some h' \<and>
           lastError h' = (if st = HAL_OK then DAC8571_OK else DAC8571_I2C_ERROR)"
  using assms
proof (elim disjE conjE)
  assume "DAC8571_Write hal (Some h) val w = (st, hp, w')"
  from Write_effect [OF this] show ?thesis by blast
next
  assume "DAC8571_WakeUp hal (Some h) val w = (st, hp, w')"
  then have "DAC8571_Write hal (Some h) val w = (st, hp, w')"
    by (simp add: DAC8571_WakeUp_def)
  from Write_effect [OF this] show ?thesis by blast
next
  assume "DAC8571_Reset hal (Some h) w = (st, hp, w')"
  then have "DAC8571_Write hal (Some h) 0 w = (st, hp, w')"
    by (simp add: DAC8571_Reset_def)
  from Write_effect [OF this] show ?thesis by blast
next
  assume "PowerMode_pdValue pdMode \<noteq> None"
    and "DAC8571_PowerMode hal (Some h) pdMode w = (st, hp, w')"
  with PowerMode_effect [of hal h pdMode w st hp w'] obtain v where
    "DAC8571_Write hal (Some (h\<lparr>writeMode := DAC8571_CMD_WRITE_TMP_PWDN\<rparr>)) v w = (st, hp, w')"
    by auto
  from Write_effect [OF this] show ?thesis by blast
next
  assume "len \<noteq> 0" "len \<le> 14"
    and "DAC8571_WriteArray hal (Some h) (Some a) len w = Some (st, hp, w')"
  with WriteArray_effect [of hal h "Some a" len w st hp w'] show ?thesis by auto
next
  assume "\<not> float_less voltage 0" "\<not> float_greater voltage DAC8571_REF_VOLTAGE"
    and "DAC8571_SetVoltage hal (Some h) voltage w = Some (st, hp, w')"
  with SetVoltage_effect [of hal h voltage w st hp w'] obtain v where
    "DAC8571_Write hal (Some h) v w = (st, hp, w')" by auto
  from Write_effect [OF this] show ?thesis by blast
qed

text \<open>
  Claim C5 says that after any successful operation \<^verbatim>\<open>DAC8571_GetLastError\<close> returns
  \<open>OK\<close>. On a handle that holds \<open>I2C_ERROR\<close>, a \<^verbatim>\<open>DAC8571_IsConnected\<close> that finds
  the device and a \<^verbatim>\<open>DAC8571_SetWriteMode\<close> with a valid mode both return \<^verbatim>\<open>HAL_OK\<close>
  and leave \<open>lastError\<close> alone, so the \<^verbatim>\<open>DAC8571_GetLastError\<close> that follows returns
  \<open>I2C_ERROR\<close>.
\<close>

theorem C5_GetLastError_counterexample:
  "DAC8571_IsConnected (sim_hal all_ok) (Some failed_handle) idle_bus
     = (HAL_OK, Some failed_handle, idle_bus\<lparr>trace := [Probe (Some 1) 0x98 1 10]\<rparr>)
   \<and> fst (DAC8571_GetLastError (Some failed_handle)) = DAC8571_I2C_ERROR
   \<and> DAC8571_SetWriteMode (Some failed_handle) DAC8571_CMD_WRITE_TMP
     = (HAL_OK, Some (failed_handle\<lparr>writeMode := DAC8571_CMD_WRITE_TMP\<rparr>))
   \<and> fst (DAC8571_GetLastError (Some (failed_handle\<lparr>writeMode := DAC8571_CMD_WRITE_TMP\<rparr>)))
     = DAC8571_I2C_ERROR
   \<and> DAC8571_I2C_ERROR \<noteq> DAC8571_OK"
  by (simp add: DAC8571_IsConnected_def DAC8571_GetLastError_def DAC8571_SetWriteMode_def
      sim_hal_def sim_probe_def all_ok_def failed_handle_def bound_handle_def idle_bus_def
      DAC8571_consts)

text \<open>
  Claim C5, amended. \<^verbatim>\<open>DAC8571_GetLastError\<close> on a non-null handle returns the current
  \<open>lastError\<close> and resets it to \<open>OK\<close>, so \<open>n + 1\<close> successive calls return the code once
  and then \<open>OK\<close> \<open>n\<close> times. After a bus operation that fails on the bus (a
  \<^verbatim>\<open>DAC8571_Write\<close>, \<^verbatim>\<open>DAC8571_WakeUp\<close>, \<^verbatim>\<open>DAC8571_Reset\<close>, \<^verbatim>\<open>DAC8571_IsConnected\<close>, a
  \<^verbatim>\<open>DAC8571_PowerMode\<close> with a recognised mode, a \<^verbatim>\<open>DAC8571_WriteArray\<close> with a length
  from 1 to 14 or a \<^verbatim>\<open>DAC8571_SetVoltage\<close> with an accepted voltage that does not return
  \<^verbatim>\<open>HAL_OK\<close>, or a \<^verbatim>\<open>DAC8571_Read\<close> whose receive fails) the calls return \<open>I2C_ERROR\<close>
  once and then \<open>OK\<close>. After a successful write (any of the writing operations
  returning \<^verbatim>\<open>HAL_OK\<close>) or a successful read every call returns \<open>OK\<close>. Nothing is said
  here of what the error is after the other operations succeed.
\<close>

theorem C5_GetLastError_amended:
  "DAC8571_GetLastError (Some h) = (lastError h, Some (h\<lparr>lastError := DAC8571_OK\<rparr>))
   \<and> GetLastError_repeat (Suc n) (Some h) =
       (lastError h # replicate n DAC8571_OK, Some (h\<lparr>lastError := DAC8571_OK\<rparr>))
   \<and> (st \<noteq> HAL_OK \<and>
        (DAC8571_Write hal (Some h) val w = (st, hp, w')
         \<or> DAC8571_WakeUp hal (Some h) val w = (st, hp, w')
         \<or> DAC8571_Reset hal (Some h) w = (st, hp, w')
         \<or> (PowerMode_pdValue pdMode \<noteq> None \<and>
              DAC8571_PowerMode hal (Some h) pdMode w = (st, hp, w'))
         \<or> (len \<noteq> 0 \<and> len \<le> 14 \<and>
              DAC8571_WriteArray hal (Some h) (Some a) len w = Some (st, hp, w'))
         \<or> (\<not> float_less voltage 0 \<and> \<not> float_greater voltage DAC8571_REF_VOLTAGE \<and>
              DAC8571_SetVoltage hal (Some h) voltage w = Some (st, hp, w'))
         \<or> DAC8571_IsConnected hal (Some h) w = (st, hp, w'))
       \<longrightarrow> fst (GetLastError_repeat (Suc n) hp) = DAC8571_I2C_ERROR # replicate n DAC8571_OK)
   \<and> (st \<noteq> HAL_OK \<and>
        Master_Receive hal w (hi2c h) (push_bit 1 (address h) OR 0x01) 3 HAL_MAX_DELAY
          = (st, rx, w')
       \<longrightarrow> fst (GetLastError_repeat (Suc n) (fst (snd (DAC8571_Read hal (Some h) w))))
             = DAC8571_I2C_ERROR # replicate n DAC8571_OK)
   \<and> (DAC8571_Write hal (Some h) val w = (HAL_OK, hp, w')
         \<or> DAC8571_WakeUp hal (Some h) val w = (HAL_OK, hp, w')
         \<or> DAC8571_Reset hal (Some h) w = (HAL_OK, hp, w')
         \<or> (PowerMode_pdValue pdMode \<noteq> None \<and>
              DAC8571_PowerMode hal (Some h) pdMode w = (HAL_OK, hp, w'))
         \<or> (len \<noteq> 0 \<and> len \<le> 14 \<and>
              DAC8571_WriteArray hal (Some h) (Some a) len w = Some (HAL_OK, hp, w'))
         \<or> (\<not> float_less voltage 0 \<and> \<not> float_greater voltage DAC8571_REF_VOLTAGE \<and>
              DAC8571_SetVoltage hal (Some h) voltage w = Some (HAL_OK, hp, w'))
       \<longrightarrow> fst (GetLastError_repeat n hp) = replicate n DAC8571_OK)
   \<and> (Master_Receive hal w (hi2c h) (push_bit 1 (address h) OR 0x01) 3 HAL_MAX_DELAY
          = (HAL_OK, rx, w')
       \<longrightarrow> fst (GetLastError_repeat n (fst (snd (DAC8571_Read hal (Some h) w))))
             = replicate n DAC8571_OK)"
proof (intro conjI impI)
  show "DAC8571_GetLastError (Some h) = (lastError h, Some (h\<lparr>lastError := DAC8571_OK\<rparr>))"
    by (simp add: DAC8571_GetLastError_def)
  show "GetLastError_repeat (Suc n) (Some h) =
       (lastError h # replicate n DAC8571_OK, Some (h\<lparr>lastError := DAC8571_OK\<rparr>))"
    by (rule GetLastError_repeat_Some)
next
  assume f: "st \<noteq> HAL_OK \<and>
        (DAC8571_Write hal (Some h) val w = (st, hp, w')
         \<or> DAC8571_WakeUp hal (Some h) val w = (st, hp, w')
         \<or> DAC8571_Reset hal (Some h) w = (st, hp, w')
         \<or> (PowerMode_pdValue pdMode \<noteq> None \<and>
              DAC8571_PowerMode hal (Some h) pdMode w = (st, hp, w'))
         \<or> (len \<noteq> 0 \<and> len \<le> 14 \<and>
              DAC8571_WriteArray hal (Some h) (Some a) len w = Some (st, hp, w'))
         \<or> (\<not> float_less voltage 0 \<and> \<not> float_greater voltage DAC8571_REF_VOLTAGE \<and>
              DAC8571_SetVoltage hal (Some h) voltage w = Some (st, hp, w'))
         \<or> DAC8571_IsConnected hal (Some h) w = (st, hp, w'))"
  then have "\<exists>h'. hp = Some h' \<and> lastError h' = DAC8571_I2C_ERROR"
  proof (cases "DAC8571_IsConnected hal (Some h) w = (st, hp, w')")
    case True
    from IsConnected_effect [OF True] f show ?thesis by auto
  next
    case False
    with f Write_like_outcome [of hal h val w st hp w' pdMode len a voltage] show ?thesis
      by auto
  qed
  then show "fst (GetLastError_repeat (Suc n) hp) = DAC8571_I2C_ERROR # replicate n DAC8571_OK"
    by (auto simp: GetLastError_repeat_Some simp del: GetLastError_repeat.simps(2))
next
  assume "st \<noteq> HAL_OK \<and>
        Master_Receive hal w (hi2c h) (push_bit 1 (address h) OR 0x01) 3 HAL_MAX_DELAY
          = (st, rx, w')"
  then show "fst (GetLastError_repeat (Suc n) (fst (snd (DAC8571_Read hal (Some h) w))))
             = DAC8571_I2C_ERROR # replicate n DAC8571_OK"
    by (simp add: DAC8571_Read_def GetLastError_repeat_Some del: GetLastError_repeat.simps(2))
next
  assume "DAC8571_Write hal (Some h) val w = (HAL_OK, hp, w')
         \<or> DAC8571_WakeUp hal (Some h) val w = (HAL_OK, hp, w')
         \<or> DAC8571_Reset hal (Some h) w = (HAL_OK, hp, w')
         \<or> (PowerMode_pdValue pdMode \<noteq> None \<and>
              DAC8571_PowerMode hal (Some h) pdMode w = (HAL_OK, hp, w'))
         \<or> (len \<noteq> 0 \<and> len \<le> 14 \<and>
              DAC8571_WriteArray hal (Some h) (Some a) len w = Some (HAL_OK, hp, w'))
         \<or> (\<not> float_less voltage 0 \<and> \<not> float_greater voltage DAC8571_REF_VOLTAGE \<and>
              DAC8571_SetVoltage hal (Some h) voltage w = Some (HAL_OK, hp, w'))"
  from Write_like_outcome [OF this] obtain h' where "hp = Some h'" "lastError h' = DAC8571_OK"
    by auto
  then show "fst (GetLastError_repeat n hp) = replicate n DAC8571_OK"
    by (simp add: GetLastError_repeat_OK)
next
  assume "Master_Receive hal w (hi2c h) (push_bit 1 (address h) OR 0x01) 3 HAL_MAX_DELAY
          = (HAL_OK, rx, w')"
  then show "fst (GetLastError_repeat n (fst (snd (DAC8571_Read hal (Some h) w))))
             = replicate n DAC8571_OK"
    by (simp add: DAC8571_Read_def Let_def GetLastError_repeat_OK)
qed


theorem C5_GetLastError_amended_witness:
  "DAC8571_GetLastError (Some failed_handle) = (DAC8571_I2C_ERROR, Some bound_handle)
   \<and> DAC8571_Write (sim_hal first_fails) (Some bound_handle) 0xABCD idle_bus
       = (HAL_TIMEOUT, Some failed_handle,
          idle_bus\<lparr>trace := [Transmit (Some 1) 0x98 [0x10, 0xAB, 0xCD] 100]\<rparr>)
   \<and> fst (GetLastError_repeat 3 (Some failed_handle))
       = [DAC8571_I2C_ERROR, DAC8571_OK, DAC8571_OK]
   \<and> DAC8571_Write (sim_hal all_ok) (Some failed_handle) 0xABCD idle_bus
       = (HAL_OK, Some (bound_handle\<lparr>lastValue := 0xABCD\<rparr>),
          \<lparr>reg_hi = 0xAB, reg_lo = 0xCD,
           trace = [Transmit (Some 1) 0x98 [0x10, 0xAB, 0xCD] 100]\<rparr>)
   \<and> fst (GetLastError_repeat 2 (Some (bound_handle\<lparr>lastValue := 0xABCD\<rparr>)))
       = [DAC8571_OK, DAC8571_OK]"
proof -
  have fh: "failed_handle\<lparr>lastError := DAC8571_OK\<rparr> = bound_handle"
    "lastError failed_handle = DAC8571_I2C_ERROR"
    by (simp_all add: failed_handle_def bound_handle_def)
  have wf: "DAC8571_Write (sim_hal first_fails) (Some bound_handle) 0xABCD idle_bus
       = (HAL_TIMEOUT, Some failed_handle,
          idle_bus\<lparr>trace := [Transmit (Some 1) 0x98 [0x10, 0xAB, 0xCD] 100]\<rparr>)"
    by (simp add: DAC8571_Write_def sim_hal_def sim_transmit_def first_fails_def idle_bus_def
        failed_handle_def bound_handle_def DAC8571_consts)
  have wo: "DAC8571_Write (sim_hal all_ok) (Some failed_handle) 0xABCD idle_bus
       = (HAL_OK, Some (bound_handle\<lparr>lastValue := 0xABCD\<rparr>),
          \<lparr>reg_hi = 0xAB, reg_lo = 0xCD,
           trace = [Transmit (Some 1) 0x98 [0x10, 0xAB, 0xCD] 100]\<rparr>)"
    by (simp add: DAC8571_Write_def sim_hal_def sim_transmit_def all_ok_def idle_bus_def
        failed_handle_def bound_handle_def DAC8571_consts)
  have three: "(3 :: nat) = Suc 2" and two: "replicate 2 DAC8571_OK = [DAC8571_OK, DAC8571_OK]"
    by (simp_all add: numeral_2_eq_2)
  note t1 = C5_GetLastError_amended [where h = failed_handle and n = 2 and st = HAL_TIMEOUT
      and hal = "sim_hal first_fails" and val = "0xABCD" and w = idle_bus
      and hp = "Some failed_handle"
      and w' = "idle_bus\<lparr>trace := [Transmit (Some 1) 0x98 [0x10, 0xAB, 0xCD] 100]\<rparr>"]
  note t2 = C5_GetLastError_amended [where h = failed_handle and n = 2 and st = HAL_OK
      and hal = "sim_hal all_ok" and val = "0xABCD" and w = idle_bus
      and hp = "Some (bound_handle\<lparr>lastValue := 0xABCD\<rparr>)"
      and w' = "\<lparr>reg_hi = 0xAB, reg_lo = 0xCD,
           trace = [Transmit (Some 1) 0x98 [0x10, 0xAB, 0xCD] 100]\<rparr>"]
  from t1 have "DAC8571_GetLastError (Some failed_handle) = (DAC8571_I2C_ERROR, Some bound_handle)"
    and "fst (GetLastError_repeat 3 (Some failed_handle))
       = [DAC8571_I2C_ERROR, DAC8571_OK, DAC8571_OK]"
    unfolding three fh by (simp_all add: two del: GetLastError_repeat.simps)
  moreover from t2 wo have "fst (GetLastError_repeat 2 (Some (bound_handle\<lparr>lastValue := 0xABCD\<rparr>)))
       = [DAC8571_OK, DAC8571_OK]"
    by (simp add: two del: GetLastError_repeat.simps)
  ultimately show ?thesis using wf wo by simp
qed


subsection \<open>The invariant of the handle\<close>

text \<open>
  Claim C8. After \<^verbatim>\<open>DAC8571_Init\<close> with a non-null transport and one of the two
  addresses, the handle holds that address and the write mode write-and-update, and
  after any sequence of driver calls that follows, the address is still one of 0x4C
  and 0x4E and the write mode one of the eight command bytes. Call by call: every
  driver function keeps the invariant, only \<^verbatim>\<open>DAC8571_Init\<close> changes the address, only
  \<^verbatim>\<open>DAC8571_Init\<close>, \<^verbatim>\<open>DAC8571_SetWriteMode\<close> and \<^verbatim>\<open>DAC8571_PowerMode\<close> change the write
  mode, and \<^verbatim>\<open>DAC8571_PowerMode\<close> leaves the write mode 0x01.
\<close>

theorem C8_handle_invariant:
  "(p \<noteq> None \<and> (addr = 0x4C \<or> addr = 0x4E) \<and>
      DAC8571_Init hal (Some hz) p addr wz = (hpj, wj) \<and>
      driver_calls hal ops hpj wj = Some (hpq, wq)
    \<longrightarrow> (\<exists>h1 h2. hpj = Some h1 \<and> address h1 = ucast addr \<and>
            writeMode h1 = DAC8571_CMD_WRITE_AND_UPDATE_DAC \<and> valid_handle h1 \<and>
            hpq = Some h2 \<and> valid_handle h2))
   \<and> (driver_call hal op (Some h) w = Some (hp', w')
    \<longrightarrow> (\<exists>h'. hp' = Some h' \<and>
            (valid_handle h \<longrightarrow> valid_handle h') \<and>
            ((\<forall>q a. op \<noteq> Op_Init q a) \<longrightarrow> address h' = address h) \<and>
            ((\<forall>q a. op \<noteq> Op_Init q a) \<and> (\<forall>m. op \<noteq> Op_SetWriteMode m)
               \<and> (\<forall>m. op \<noteq> Op_PowerMode m) \<longrightarrow> writeMode h' = writeMode h) \<and>
            ((\<exists>m. op = Op_PowerMode m) \<longrightarrow> writeMode h' = DAC8571_CMD_WRITE_TMP_PWDN)))"
proof (intro conjI impI)
  assume a: "p \<noteq> None \<and> (addr = 0x4C \<or> addr = 0x4E) \<and>
      DAC8571_Init hal (Some hz) p addr wz = (hpj, wj) \<and>
      driver_calls hal ops hpj wj = Some (hpq, wq)"
  then have i: "DAC8571_Init hal (Some hz) p addr wz = (hpj, wj)" by simp
  from Init_effect [OF i] a obtain h1 where h1: "hpj = Some h1" "address h1 = ucast addr"
    "writeMode h1 = DAC8571_CMD_WRITE_AND_UPDATE_DAC" by auto
  with a have v1: "valid_handle h1" by (auto simp: valid_handle_def DAC8571_consts)
  from a h1 have "driver_calls hal ops (Some h1) wj = Some (hpq, wq)" by simp
  from driver_calls_effect [OF this] v1 obtain h2 where "hpq = Some h2" "valid_handle h2"
    by auto
  with h1 v1 show "\<exists>h1 h2. hpj = Some h1 \<and> address h1 = ucast addr \<and>
            writeMode h1 = DAC8571_CMD_WRITE_AND_UPDATE_DAC \<and> valid_handle h1 \<and>
            hpq = Some h2 \<and> valid_handle h2" by blast
next
  assume c: "driver_call hal op (Some h) w = Some (hp', w')"
  from driver_call_effect [OF c] obtain h' where h': "hp' = Some h'"
    "valid_handle h \<longrightarrow> valid_handle h'"
    "(\<forall>q a. op \<noteq> Op_Init q a) \<longrightarrow> address h' = address h"
    "(\<forall>q a. op \<noteq> Op_Init q a) \<and> (\<forall>m. op \<noteq> Op_SetWriteMode m)
               \<and> (\<forall>m. op \<noteq> Op_PowerMode m) \<longrightarrow> writeMode h' = writeMode h"
    by blast
  have "(\<exists>m. op = Op_PowerMode m) \<longrightarrow> writeMode h' = DAC8571_CMD_WRITE_TMP_PWDN"
  proof
    assume "\<exists>m. op = Op_PowerMode m"
    then obtain m where m: "op = Op_PowerMode m" by blast
    with c h' have "DAC8571_PowerMode hal (Some h) m w
      = (fst (DAC8571_PowerMode hal (Some h) m w), Some h', w')"
      by (metis driver_call.simps(9) option.inject prod.collapse)
    from PowerMode_effect [OF this] show "writeMode h' = DAC8571_CMD_WRITE_TMP_PWDN"
      by (auto simp: bus_effect_def dest!: Write_effect)
  qed
  with h' show "\<exists>h'. hp' = Some h' \<and>
            (valid_handle h \<longrightarrow> valid_handle h') \<and>
            ((\<forall>q a. op \<noteq> Op_Init q a) \<longrightarrow> address h' = address h) \<and>
            ((\<forall>q a. op \<noteq> Op_Init q a) \<and> (\<forall>m. op \<noteq> Op_SetWriteMode m)
               \<and> (\<forall>m. op \<noteq> Op_PowerMode m) \<longrightarrow> writeMode h' = writeMode h) \<and>
            ((\<exists>m. op = Op_PowerMode m) \<longrightarrow> writeMode h' = DAC8571_CMD_WRITE_TMP_PWDN)"
    by blast
qed


theorem C8_handle_invariant_witness:
  "DAC8571_Init (sim_hal all_ok) (Some zero_handle) (Some 1) 0x4C idle_bus
     = (Some bound_handle, idle_bus\<lparr>trace := [Probe (Some 1) 0x98 1 10]\<rparr>)
   \<and> driver_calls (sim_hal all_ok)
        [Op_SetWriteMode 0x31, Op_PowerMode 0xFF, Op_Write 0x1234, Op_GetLastError]
        (Some bound_handle) (idle_bus\<lparr>trace := [Probe (Some 1) 0x98 1 10]\<rparr>)
     = Some (Some \<lparr>hi2c = Some 1, address = 0x4C, lastValue = 0x1234, writeMode = 0x01,
                    lastError = 0\<rparr>,
             \<lparr>reg_hi = 0x12, reg_lo = 0x34,
              trace = [Probe (Some 1) 0x98 1 10,
                       Transmit (Some 1) 0x98 [0x01, 0x12, 0x34] 100]\<rparr>)
   \<and> valid_handle bound_handle
   \<and> valid_handle \<lparr>hi2c = Some 1, address = 0x4C, lastValue = 0x1234, writeMode = 0x01,
                     lastError = 0\<rparr>"
proof -
  have i: "DAC8571_Init (sim_hal all_ok) (Some zero_handle) (Some 1) 0x4C idle_bus
     = (Some bound_handle, idle_bus\<lparr>trace := [Probe (Some 1) 0x98 1 10]\<rparr>)"
    by (simp add: DAC8571_Init_def Init_probe.simps [of _ _ 1] DAC8571_IsConnected_def
        sim_hal_def sim_probe_def all_ok_def zero_handle_def bound_handle_def idle_bus_def
        DAC8571_consts)
  have c: "driver_calls (sim_hal all_ok)
        [Op_SetWriteMode 0x31, Op_PowerMode 0xFF, Op_Write 0x1234, Op_GetLastError]
        (Some bound_handle) (idle_bus\<lparr>trace := [Probe (Some 1) 0x98 1 10]\<rparr>)
     = Some (Some \<lparr>hi2c = Some 1, address = 0x4C, lastValue = 0x1234, writeMode = 0x01,
                    lastError = 0\<rparr>,
             \<lparr>reg_hi = 0x12, reg_lo = 0x34,
              trace = [Probe (Some 1) 0x98 1 10,
                       Transmit (Some 1) 0x98 [0x01, 0x12, 0x34] 100]\<rparr>)"
    by (simp add: DAC8571_SetWriteMode_def DAC8571_PowerMode_def PowerMode_pdValue_def
        DAC8571_Write_def DAC8571_GetLastError_def sim_hal_def sim_transmit_def all_ok_def
        bound_handle_def idle_bus_def DAC8571_consts)
  have "(Some 1 :: I2C_ptr) \<noteq> None \<and> ((0x4C :: 8 word) = 0x4C \<or> (0x4C :: 8 word) = 0x4E)"
    by simp
  with i c C8_handle_invariant [where p = "Some 1" and addr = "0x4C" and hal = "sim_hal all_ok"
      and hz = zero_handle and wz = idle_bus and hpj = "Some bound_handle"
      and wj = "idle_bus\<lparr>trace := [Probe (Some 1) 0x98 1 10]\<rparr>"
      and ops = "[Op_SetWriteMode 0x31, Op_PowerMode 0xFF, Op_Write 0x1234, Op_GetLastError]"
      and hpq = "Some \<lparr>hi2c = Some 1, address = 0x4C, lastValue = 0x1234, writeMode = 0x01,
                    lastError = 0\<rparr>"
      and wq = "\<lparr>reg_hi = 0x12, reg_lo = 0x34,
              trace = [Probe (Some 1) 0x98 1 10,
                       Transmit (Some 1) 0x98 [0x01, 0x12, 0x34] 100]\<rparr>"]
  show ?thesis by auto
qed


subsection \<open>The address error\<close>

text \<open>
  Claim C10. \<^verbatim>\<open>DAC8571_GetLastError\<close> on a null handle returns \<open>ADDRESS_ERROR\<close> (0x82),
  which is not \<open>OK\<close>. No driver call stores it: after any call \<open>lastError\<close> is what it
  was, \<open>OK\<close>, \<open>I2C_ERROR\<close> or \<open>BUFFER_ERROR\<close>, so a handle that does not hold
  \<open>ADDRESS_ERROR\<close> never holds it after any sequence of calls, and
  \<^verbatim>\<open>DAC8571_GetLastError\<close> does not return it for that handle. \<^verbatim>\<open>DAC8571_Init\<close> with an
  address other than 0x4C and 0x4E leaves the handle as it was.
\<close>

theorem C10_ADDRESS_ERROR_only_from_null:
  "DAC8571_GetLastError None = (DAC8571_ADDRESS_ERROR, None)
   \<and> DAC8571_ADDRESS_ERROR = 0x82 \<and> DAC8571_ADDRESS_ERROR \<noteq> DAC8571_OK
   \<and> (driver_call hal op (Some h) w = Some (hp, w')
      \<longrightarrow> (\<exists>h'. hp = Some h' \<and>
             (lastError h' = lastError h \<or> lastError h' = DAC8571_OK
              \<or> lastError h' = DAC8571_I2C_ERROR \<or> lastError h' = DAC8571_BUFFER_ERROR)))
   \<and> (lastError h \<noteq> DAC8571_ADDRESS_ERROR \<and> driver_calls hal ops (Some h) w = Some (hpq, wq)
      \<longrightarrow> (\<exists>h2. hpq = Some h2 \<and> lastError h2 \<noteq> DAC8571_ADDRESS_ERROR \<and>
             fst (DAC8571_GetLastError hpq) \<noteq> DAC8571_ADDRESS_ERROR))
   \<and> (addr \<noteq> 0x4C \<and> addr \<noteq> 0x4E \<longrightarrow> DAC8571_Init hal (Some h) p addr w = (Some h, w))"
proof (intro conjI impI)
  show "DAC8571_GetLastError None = (DAC8571_ADDRESS_ERROR, None)"
    by (simp add: DAC8571_GetLastError_def)
  show "DAC8571_ADDRESS_ERROR = 0x82" "DAC8571_ADDRESS_ERROR \<noteq> DAC8571_OK"
    by (simp_all add: DAC8571_consts)
next
  assume "driver_call hal op (Some h) w = Some (hp, w')"
  from driver_call_effect [OF this]
  show "\<exists>h'. hp = Some h' \<and>
             (lastError h' = lastError h \<or> lastError h' = DAC8571_OK
              \<or> lastError h' = DAC8571_I2C_ERROR \<or> lastError h' = DAC8571_BUFFER_ERROR)"
    by blast
next
  assume a: "lastError h \<noteq> DAC8571_ADDRESS_ERROR \<and>
    driver_calls hal ops (Some h) w = Some (hpq, wq)"
  then have "driver_calls hal ops (Some h) w = Some (hpq, wq)" by simp
  from driver_calls_effect [OF this] a
  show "\<exists>h2. hpq = Some h2 \<and> lastError h2 \<noteq> DAC8571_ADDRESS_ERROR \<and>
             fst (DAC8571_GetLastError hpq) \<noteq> DAC8571_ADDRESS_ERROR"
    by (auto simp: DAC8571_GetLastError_def)
next
  assume "addr \<noteq> 0x4C \<and> addr \<noteq> 0x4E"
  then show "DAC8571_Init hal (Some h) p addr w = (Some h, w)"
    by (simp add: Init_rejected)
qed

theorem C10_ADDRESS_ERROR_only_from_null_witness:
  "DAC8571_GetLastError None = (0x82, None)
   \<and> DAC8571_Init (sim_hal all_ok) (Some zero_handle) (Some 1) 0x4D idle_bus
       = (Some zero_handle, idle_bus)
   \<and> driver_calls (sim_hal all_ok) [Op_Init (Some 1) 0x4D, Op_WriteArray (Some [1]) 20]
        (Some zero_handle) idle_bus
       = Some (Some (zero_handle\<lparr>lastError := DAC8571_BUFFER_ERROR\<rparr>), idle_bus)
   \<and> lastError (zero_handle\<lparr>lastError := DAC8571_BUFFER_ERROR\<rparr>) \<noteq> DAC8571_ADDRESS_ERROR"
proof -
  have c: "driver_calls (sim_hal all_ok) [Op_Init (Some 1) 0x4D, Op_WriteArray (Some [1]) 20]
        (Some zero_handle) idle_bus
       = Some (Some (zero_handle\<lparr>lastError := DAC8571_BUFFER_ERROR\<rparr>), idle_bus)"
    by (simp add: DAC8571_Init_def DAC8571_WriteArray_def)
  have z: "lastError zero_handle \<noteq> DAC8571_ADDRESS_ERROR"
    by (simp add: zero_handle_def DAC8571_consts)
  have a: "(0x4D :: 8 word) \<noteq> 0x4C \<and> (0x4D :: 8 word) \<noteq> 0x4E" by simp
  from c z a C10_ADDRESS_ERROR_only_from_null [where h = zero_handle and hal = "sim_hal all_ok"
      and w = idle_bus and addr = "0x4D" and p = "Some 1"
      and ops = "[Op_Init (Some 1) 0x4D, Op_WriteArray (Some [1]) 20]"
      and hpq = "Some (zero_handle\<lparr>lastError := DAC8571_BUFFER_ERROR\<rparr>)" and wq = idle_bus]
  show ?thesis by auto
qed

subsection \<open>The rounding of binary64\<close>

text \<open>
  \<open>bitlen\<close> and \<open>ilog2\<close> compute what their names say, so \<open>round_double\<close> rounds a
  positive number to a multiple of the unit in the last place of its binade, with a
  significand of 53 bits, and the relative error of one rounding is at most \<open>2 ^ - 53\<close>.
\<close>

lemma bitlen_nonneg: "0 \<le> bitlen n"
  by (induction n rule: bitlen.induct) (simp add: bitlen.simps)

lemma bitlen_bounds:
  "0 < n \<Longrightarrow> 1 \<le> bitlen n \<and> 2 ^ nat (bitlen n - 1) \<le> n \<and> n < 2 ^ nat (bitlen n)"
proof (induction n rule: bitlen.induct)
  case (1 n)
  show ?case
  proof (cases "n div 2 = 0")
    case True
    with "1.prems" have "n = 1" by presburger
    then show ?thesis by (simp add: bitlen.simps [of 1] bitlen.simps [of 0])
  next
    case False
    with "1.prems" have pos: "0 < n div 2" by presburger
    define b where "b = bitlen (n div 2)"
    from "1.IH" [OF "1.prems" pos] have b: "1 \<le> b" "2 ^ nat (b - 1) \<le> n div 2"
      "n div 2 < 2 ^ nat b" by (simp_all add: b_def)
    have bn: "bitlen n = 1 + b" using "1.prems" by (simp add: bitlen.simps [of n] b_def)
    have e1: "nat b = Suc (nat (b - 1))" using b(1) by simp
    have e2: "nat (1 + b) = Suc (nat b)" using b(1) by simp
    have "2 * 2 ^ nat (b - 1) \<le> n" using b(2) by presburger
    then have "2 ^ nat (bitlen n - 1) \<le> n" by (simp add: bn e1)
    moreover have "n < 2 * 2 ^ nat b" using b(3) by presburger
    then have "n < 2 ^ nat (bitlen n)" by (simp add: bn e2)
    ultimately show ?thesis using b(1) by (simp add: bn)
  qed
qed

lemma ilog2_lower: assumes "0 < z" shows "2 powi (ilog2 z) \<le> z"
proof (cases "1 \<le> z")
  case True
  define n where "n = \<lfloor>z\<rfloor>"
  from True have n: "0 < n" by (simp add: n_def)
  from bitlen_bounds [OF n] have "1 \<le> bitlen n" "2 ^ nat (bitlen n - 1) \<le> n" by simp_all
  then have "(2 :: rat) powi (bitlen n - 1) \<le> of_int n"
    by (simp add: power_int_def)
  also have "\<dots> \<le> z" by (simp add: n_def)
  finally show ?thesis using True by (simp add: ilog2_def n_def)
next
  case False
  define k where "k = \<lceil>1 / z\<rceil> - 1"
  from False assms have "1 < 1 / z" by simp
  then have k: "0 < k" unfolding k_def by linarith
  from bitlen_bounds [OF k] have "k < 2 ^ nat (bitlen k)" "1 \<le> bitlen k" by simp_all
  then have "k + 1 \<le> 2 ^ nat (bitlen k)" by simp
  then have "(of_int (k + 1) :: rat) \<le> 2 ^ nat (bitlen k)"
    by (metis of_int_le_iff of_int_numeral of_int_power)
  moreover have "1 / z \<le> of_int (k + 1)" by (simp add: k_def)
  ultimately have "1 / z \<le> 2 ^ nat (bitlen k)" by linarith
  with assms have "1 / 2 ^ nat (bitlen k) \<le> z"
    by (simp add: field_simps)
  moreover have "(2 :: rat) powi (- bitlen k) = 1 / 2 ^ nat (bitlen k)"
    using \<open>1 \<le> bitlen k\<close> by (simp add: power_int_def field_simps)
  ultimately show ?thesis using False by (simp add: ilog2_def k_def)
qed

lemma ilog2_upper: assumes "0 < z" shows "z < 2 powi (ilog2 z + 1)"
proof (cases "1 \<le> z")
  case True
  define n where "n = \<lfloor>z\<rfloor>"
  from True have n: "0 < n" by (simp add: n_def)
  from bitlen_bounds [OF n] have b: "1 \<le> bitlen n" "n < 2 ^ nat (bitlen n)" by simp_all
  then have "n + 1 \<le> 2 ^ nat (bitlen n)" by simp
  then have "(of_int (n + 1) :: rat) \<le> 2 ^ nat (bitlen n)"
    by (metis of_int_le_iff of_int_numeral of_int_power)
  moreover have "z < of_int (n + 1)" unfolding n_def by linarith
  ultimately have "z < 2 ^ nat (bitlen n)" by linarith
  moreover have "(2 :: rat) powi (bitlen n - 1 + 1) = 2 ^ nat (bitlen n)"
    using b(1) by (simp add: power_int_def)
  ultimately show ?thesis using True by (simp add: ilog2_def n_def)
next
  case False
  define k where "k = \<lceil>1 / z\<rceil> - 1"
  from False assms have "1 < 1 / z" by simp
  then have k: "0 < k" unfolding k_def by linarith
  from bitlen_bounds [OF k] have b: "2 ^ nat (bitlen k - 1) \<le> k" "1 \<le> bitlen k" by simp_all
  then have "(2 :: rat) ^ nat (bitlen k - 1) \<le> of_int k"
    by (metis of_int_le_iff of_int_numeral of_int_power)
  moreover have "of_int k < 1 / z" unfolding k_def by linarith
  ultimately have "2 ^ nat (bitlen k - 1) < 1 / z" by linarith
  with assms have "z < 1 / 2 ^ nat (bitlen k - 1)"
    by (simp add: field_simps)
  moreover have "(2 :: rat) powi (- bitlen k + 1) = 1 / 2 ^ nat (bitlen k - 1)"
    using b(2) by (simp add: power_int_def field_simps)
  ultimately show ?thesis using False by (simp add: ilog2_def k_def)
qed

lemma round_ties_even_error: "\<bar>of_int (round_ties_even t) - t\<bar> \<le> 1 / 2"
  unfolding round_ties_even_def Let_def by (auto simp: abs_if not_less) linarith+

lemma round_double_significand:
  assumes "0 < z"
  shows "\<exists>n. round_double z = of_int n * 2 powi (ilog2 z - 52) \<and> 2 ^ 52 \<le> n \<and> n \<le> 2 ^ 53"
proof -
  define u :: rat where "u = 2 powi (ilog2 z - 52)"
  define t where "t = z / u"
  have u: "0 < u" by (simp add: u_def)
  have u1: "u * 2 ^ 52 = 2 powi (ilog2 z)" by (simp add: u_def power_int_diff)
  have u2: "u * 2 ^ 53 = 2 powi (ilog2 z + 1)" by (simp add: u_def power_int_diff power_int_add)
  from ilog2_lower [OF assms] u1 have "u * 2 ^ 52 \<le> z" by simp
  then have lo: "2 ^ 52 \<le> t" using u by (simp add: t_def field_simps)
  from ilog2_upper [OF assms] u2 have "z < u * 2 ^ 53" by simp
  then have hi: "t < 2 ^ 53" using u by (simp add: t_def field_simps)
  have "(2 ^ 52 :: int) \<le> \<lfloor>t\<rfloor>" using lo by (simp add: le_floor_iff)
  moreover have "\<lfloor>t\<rfloor> < 2 ^ 53" using hi by (simp add: floor_less_iff)
  moreover have "\<lfloor>t\<rfloor> \<le> round_ties_even t" "round_ties_even t \<le> \<lfloor>t\<rfloor> + 1"
    by (simp_all add: round_ties_even_def Let_def)
  ultimately have "2 ^ 52 \<le> round_ties_even t" "round_ties_even t \<le> 2 ^ 53" by linarith+
  moreover have "round_double z = of_int (round_ties_even t) * u"
    using assms by (simp add: round_double_def t_def u_def Let_def)
  ultimately show ?thesis unfolding u_def by blast
qed


lemma round_double_error:
  assumes "0 < z" shows "\<bar>round_double z - z\<bar> \<le> z / 2 ^ 53"
proof -
  define u :: rat where "u = 2 powi (ilog2 z - 52)"
  have u: "0 < u" by (simp add: u_def)
  have "u = 2 powi (ilog2 z) / 2 ^ 52" by (simp add: u_def power_int_diff)
  with ilog2_lower [OF assms] have uz: "u \<le> z / 2 ^ 52" by (simp add: divide_right_mono)
  define r where "r = round_ties_even (z / u)"
  have rd: "round_double z = of_int r * u"
    using assms by (simp add: round_double_def r_def u_def Let_def)
  have "\<bar>of_int r - z / u\<bar> \<le> 1 / 2" unfolding r_def by (rule round_ties_even_error)
  then have "\<bar>of_int r - z / u\<bar> * u \<le> 1 / 2 * u" using u by (simp add: mult_right_mono)
  moreover have "\<bar>of_int r - z / u\<bar> * u = \<bar>of_int r * u - z\<bar>"
  proof -
    have "(of_int r - z / u) * u = of_int r * u - z" using u by (simp add: field_simps)
    then have "\<bar>of_int r * u - z\<bar> = \<bar>of_int r - z / u\<bar> * \<bar>u\<bar>"
      by (simp only: abs_mult [symmetric])
    with u show ?thesis by simp
  qed
  ultimately have "\<bar>of_int r * u - z\<bar> \<le> u / 2" by simp
  also have "\<dots> \<le> z / 2 ^ 53" using uz by simp
  finally show ?thesis by (simp add: rd)
qed

lemma scale_error:
  assumes "0 < q"
  shows "\<bar>round_double (round_double q * 65535) - q * 65535\<bar> \<le> q * 65535 / 2 ^ 51"
proof -
  define x where "x = q * 65535"
  define y where "y = round_double q * 65535"
  have x: "0 < x" using assms by (simp add: x_def)
  have eq: "\<bar>round_double q - q\<bar> \<le> q / 2 ^ 53" by (rule round_double_error [OF assms])
  have "y - x = (round_double q - q) * 65535" by (simp add: x_def y_def algebra_simps)
  then have "\<bar>y - x\<bar> = \<bar>round_double q - q\<bar> * 65535"
    by (simp only: abs_mult)
  with eq have yx: "\<bar>y - x\<bar> \<le> x / 2 ^ 53" by (simp add: x_def)
  have "x / 2 ^ 53 < x" using x by simp
  with yx have y: "0 < y" "y \<le> x + x / 2 ^ 53" by linarith+
  from round_double_error [OF y(1)] have "\<bar>round_double y - y\<bar> \<le> y / 2 ^ 53" .
  also have "\<dots> \<le> (x + x / 2 ^ 53) / 2 ^ 53" using y(2) by (simp add: divide_right_mono)
  finally have "\<bar>round_double y - x\<bar> \<le> (x + x / 2 ^ 53) / 2 ^ 53 + x / 2 ^ 53"
    using yx by linarith
  also have "\<dots> = x * ((1 + 1 / 2 ^ 53) / 2 ^ 53 + 1 / 2 ^ 53)" by (simp add: algebra_simps)
  also have "\<dots> \<le> x * (1 / 2 ^ 51)" using x by (intro mult_left_mono) simp_all
  finally show ?thesis by (simp add: x_def y_def)
qed

subsection \<open>Scaling a voltage\<close>

text \<open>
  The voltages at which \<open>voltage / 2.5 * 65535\<close> is an integer are the multiples of one
  half; the code computes the exact result there.
\<close>

lemma scale_0: "double_to_uint16 (double_mul (double_div 0 DAC8571_REF_VOLTAGE) 65535) = Some 0"
  by (simp add: double_to_uint16_def double_mul_def double_div_def round_double_def)

lemma scale_1: "double_mul (double_div (1 / 2) DAC8571_REF_VOLTAGE) 65535 = 13107"
  by code_simp
lemma scale_2: "double_mul (double_div 1 DAC8571_REF_VOLTAGE) 65535 = 26214"
  by code_simp
lemma scale_3: "double_mul (double_div (3 / 2) DAC8571_REF_VOLTAGE) 65535 = 39321"
  by code_simp
lemma scale_4: "double_mul (double_div 2 DAC8571_REF_VOLTAGE) 65535 = 52428"
  by code_simp
lemma scale_5: "double_mul (double_div (5 / 2) DAC8571_REF_VOLTAGE) 65535 = 65535"
  by code_simp

text \<open>
  Everywhere else the exact result \<open>13107 * m / 2 ^ j\<close> keeps a distance of at least
  \<open>1 / 2 ^ j\<close> from the integers around it, and the two roundings move it by less.
\<close>

lemma grid_gap:
  fixes m :: int and j :: nat
  assumes nd: "\<not> 2 ^ j dvd m"
  defines "x \<equiv> (of_int (13107 * m) / 2 ^ j :: rat)"
  shows "of_int \<lfloor>x\<rfloor> + 1 / 2 ^ j \<le> x" and "x + 1 / 2 ^ j \<le> of_int \<lfloor>x\<rfloor> + 1"
proof -
  define N where "N = 13107 * m"
  define P :: int where "P = 2 ^ j"
  have P: "0 < P" by (simp add: P_def)
  have "coprime P 13107" unfolding P_def by (cases j) simp_all
  then have "\<not> P dvd N" using nd unfolding N_def P_def
    by (simp add: coprime_dvd_mult_right_iff)
  then have "N mod P \<noteq> 0" by (simp add: dvd_eq_mod_eq_0)
  moreover have "0 \<le> N mod P" "N mod P < P" using P by simp_all
  ultimately have r: "1 \<le> N mod P" "N mod P \<le> P - 1" by linarith+
  have xP: "x = of_int N / of_int P" by (simp add: x_def N_def P_def)
  have fl: "\<lfloor>x\<rfloor> = N div P" unfolding xP by (simp add: floor_divide_of_int_eq)
  have "(of_int N :: rat) = of_int (N div P) * of_int P + of_int (N mod P)"
    by (metis div_mult_mod_eq of_int_add of_int_mult)
  then have "x = (of_int (N div P) * of_int P + of_int (N mod P)) / of_int P"
    unfolding xP by (rule arg_cong)
  then have "x = of_int (N div P) + of_int (N mod P) / of_int P"
    using P by (simp add: add_divide_distrib)
  moreover have "(1 :: rat) / of_int P \<le> of_int (N mod P) / of_int P"
    using r(1) P by (simp add: divide_right_mono)
  moreover have "of_int (N mod P) / (of_int P :: rat) \<le> of_int (P - 1) / of_int P"
  proof (rule divide_right_mono)
    show "(of_int (N mod P) :: rat) \<le> of_int (P - 1)" using r(2) by (simp only: of_int_le_iff)
    show "0 \<le> (of_int P :: rat)" using P by simp
  qed
  moreover have "of_int (P - 1) / (of_int P :: rat) = 1 - 1 / of_int P"
    using P by (simp add: field_simps)
  moreover have "(of_int P :: rat) = 2 ^ j" by (simp add: P_def)
  ultimately show "of_int \<lfloor>x\<rfloor> + 1 / 2 ^ j \<le> x" and "x + 1 / 2 ^ j \<le> of_int \<lfloor>x\<rfloor> + 1"
    unfolding fl by simp_all
qed

lemma half_integer_cases:
  fixes v :: rat and t :: int
  assumes "v = of_int t / 2" "0 \<le> v" "v \<le> 5 / 2"
  shows "v = 0 \<or> v = 1 / 2 \<or> v = 1 \<or> v = 3 / 2 \<or> v = 2 \<or> v = 5 / 2"
proof -
  from assms have "0 \<le> t" "t \<le> 5" by simp_all
  then have "t = 0 \<or> t = 1 \<or> t = 2 \<or> t = 3 \<or> t = 4 \<or> t = 5" by presburger
  with assms(1) show ?thesis by auto
qed

lemma scale_half_integer:
  fixes v :: rat and t :: int
  assumes "v = of_int t / 2" "0 \<le> v" "v \<le> 5 / 2"
  shows "double_to_uint16 (double_mul (double_div v DAC8571_REF_VOLTAGE) 65535)
           = Some (word_of_int \<lfloor>v / DAC8571_REF_VOLTAGE * 65535\<rfloor>)"
  using half_integer_cases [OF assms]
proof (elim disjE)
  assume a: "v = 0"
  show ?thesis unfolding a scale_0 by simp
next
  assume a: "v = 1 / 2"
  have "\<lfloor>(1 / 2 :: rat) / DAC8571_REF_VOLTAGE * 65535\<rfloor> = 13107"
    by (simp add: DAC8571_REF_VOLTAGE_def)
  then show ?thesis unfolding a scale_1 by (simp add: double_to_uint16_def)
next
  assume a: "v = 1"
  have "\<lfloor>(1 :: rat) / DAC8571_REF_VOLTAGE * 65535\<rfloor> = 26214"
    by (simp add: DAC8571_REF_VOLTAGE_def)
  then show ?thesis unfolding a scale_2 by (simp add: double_to_uint16_def)
next
  assume a: "v = 3 / 2"
  have "\<lfloor>(3 / 2 :: rat) / DAC8571_REF_VOLTAGE * 65535\<rfloor> = 39321"
    by (simp add: DAC8571_REF_VOLTAGE_def)
  then show ?thesis unfolding a scale_3 by (simp add: double_to_uint16_def)
next
  assume a: "v = 2"
  have "\<lfloor>(2 :: rat) / DAC8571_REF_VOLTAGE * 65535\<rfloor> = 52428"
    by (simp add: DAC8571_REF_VOLTAGE_def)
  then show ?thesis unfolding a scale_4 by (simp add: double_to_uint16_def)
next
  assume a: "v = 5 / 2"
  have "\<lfloor>(5 / 2 :: rat) / DAC8571_REF_VOLTAGE * 65535\<rfloor> = 65535"
    by (simp add: DAC8571_REF_VOLTAGE_def)
  then show ?thesis unfolding a scale_5 by (simp add: double_to_uint16_def)
qed

lemma scale_off_grid:
  fixes m :: int and j :: nat
  assumes nd: "\<not> 2 ^ j dvd m" and m: "\<bar>m\<bar> < 2 ^ 24"
    and v: "v = of_int m / 2 ^ j / 2" and v0: "0 \<le> v" and v1: "v \<le> 5 / 2"
  shows "double_to_uint16 (double_mul (double_div v DAC8571_REF_VOLTAGE) 65535)
           = Some (word_of_int \<lfloor>v / DAC8571_REF_VOLTAGE * 65535\<rfloor>)"
proof -
  define x :: rat where "x = of_int (13107 * m) / 2 ^ j"
  define q where "q = v / DAC8571_REF_VOLTAGE"
  define d :: rat where "d = 1 / 2 ^ j"
  define y where "y = round_double (round_double q * 65535)"
  have d: "0 < d" by (simp add: d_def)
  have xq: "x = q * 65535" by (simp add: x_def q_def v DAC8571_REF_VOLTAGE_def)
  have xv: "x = v * 26214" by (simp add: x_def v)
  from nd have "m \<noteq> 0" by auto
  moreover have "v < 0" if "m < 0" using that by (simp add: v divide_neg_pos)
  ultimately have mpos: "0 < m" using v0 by force
  then have vpos: "0 < v" by (simp add: v)
  then have qpos: "0 < q" by (simp add: q_def DAC8571_REF_VOLTAGE_def)
  have xpos: "0 < x" using vpos by (simp add: xv)
  have "13107 * m < 2 ^ 14 * 2 ^ 24" using m mpos by simp
  then have "(of_int (13107 * m) :: rat) < of_int (2 ^ 14 * 2 ^ 24)"
    by (simp only: of_int_less_iff)
  then have "x < 2 ^ 38 * d" by (simp add: x_def d_def divide_strict_right_mono)
  then have small: "x / 2 ^ 51 < d" using d by simp
  from grid_gap [OF nd] have gap: "of_int \<lfloor>x\<rfloor> + d \<le> x" "x + d \<le> of_int \<lfloor>x\<rfloor> + 1"
    by (simp_all add: x_def d_def)
  from scale_error [OF qpos] have "\<bar>y - x\<bar> \<le> x / 2 ^ 51" by (simp add: y_def xq)
  with small gap have yb: "of_int \<lfloor>x\<rfloor> < y" "y < of_int \<lfloor>x\<rfloor> + 1" by linarith+
  then have fy: "\<lfloor>y\<rfloor> = \<lfloor>x\<rfloor>" by (simp add: floor_unique)
  have "x \<le> 65535" using v1 by (simp add: xv)
  then have "\<lfloor>x\<rfloor> \<le> 65535" by (simp add: floor_le_iff)
  then have "(of_int \<lfloor>x\<rfloor> :: rat) \<le> 65535"
    by (metis of_int_le_iff of_int_numeral)
  with yb have y1: "y < 65536" by linarith
  have "0 \<le> \<lfloor>x\<rfloor>" using xpos by simp
  then have "(0 :: rat) \<le> of_int \<lfloor>x\<rfloor>" by simp
  with yb have y0: "0 < y" by linarith
  have "double_to_uint16 y = Some (word_of_int \<lfloor>x\<rfloor>)"
    using y0 y1 fy by (simp add: double_to_uint16_def)
  moreover have "v / DAC8571_REF_VOLTAGE * 65535 = x" by (simp add: xq q_def)
  ultimately show ?thesis by (simp add: double_mul_def double_div_def y_def q_def)
qed

lemma scale_floor:
  assumes m: "\<bar>m\<bar> < 2 ^ 24"
    and v0: "0 \<le> finite_value m e" and v1: "finite_value m e \<le> 5 / 2"
  shows "double_to_uint16 (double_mul (double_div (finite_value m e) DAC8571_REF_VOLTAGE) 65535)
           = Some (word_of_int \<lfloor>finite_value m e / DAC8571_REF_VOLTAGE * 65535\<rfloor>)"
proof (cases "0 \<le> e + 1")
  case True
  then have "(2 :: rat) powi e = 2 powi (e + 1) / 2" by (simp add: power_int_add)
  also have "\<dots> = 2 ^ nat (e + 1) / 2" using True by (simp add: power_int_def)
  finally have "finite_value m e = of_int (m * 2 ^ nat (e + 1)) / 2"
    by (simp add: finite_value_def)
  from scale_half_integer [OF this v0 v1] show ?thesis .
next
  case False
  define j where "j = nat (- e - 1)"
  from False have e: "e = - int j - 1" by (simp add: j_def)
  have p: "(2 :: rat) powi e = 1 / 2 ^ j / 2"
    unfolding e by (simp add: power_int_diff power_int_minus field_simps)
  have v: "finite_value m e = of_int m / 2 ^ j / 2" by (simp add: finite_value_def p)
  show ?thesis
  proof (cases "2 ^ j dvd m")
    case True
    then obtain c where "m = 2 ^ j * c" by (auto simp: dvd_def)
    then have "(of_int m :: rat) / 2 ^ j = of_int c" by simp
    with v have "finite_value m e = of_int c / 2" by simp
    from scale_half_integer [OF this v0 v1] show ?thesis .
  next
    case False
    from scale_off_grid [OF False m v v0 v1] show ?thesis .
  qed
qed

text \<open>
  Claim C2. For every binary32 voltage \<open>v\<close> from 0 to \<^verbatim>\<open>DAC8571_REF_VOLTAGE\<close>,
  \<^verbatim>\<open>DAC8571_SetVoltage\<close> on a non-null handle is the \<^verbatim>\<open>DAC8571_Write\<close> of the code
  \<open>\<lfloor>v / REF_VOLTAGE * 65535\<rfloor>\<close>, the exact quotient and product truncated, which lies
  between 0 and 65535; the voltage 0 gives the code 0 and the voltage
  \<^verbatim>\<open>DAC8571_REF_VOLTAGE\<close> the code 65535.
\<close>

theorem C2_SetVoltage_truncates:
  "(is_binary32 (Finite m e) \<and> 0 \<le> finite_value m e
      \<and> finite_value m e \<le> DAC8571_REF_VOLTAGE
    \<longrightarrow> DAC8571_SetVoltage hal (Some h) (Finite m e) w =
          Some (DAC8571_Write hal (Some h)
                  (word_of_int \<lfloor>finite_value m e / DAC8571_REF_VOLTAGE * 65535\<rfloor>) w)
        \<and> 0 \<le> \<lfloor>finite_value m e / DAC8571_REF_VOLTAGE * 65535\<rfloor>
        \<and> \<lfloor>finite_value m e / DAC8571_REF_VOLTAGE * 65535\<rfloor> \<le> 65535)
   \<and> (finite_value m e = 0
    \<longrightarrow> DAC8571_SetVoltage hal (Some h) (Finite m e) w
          = Some (DAC8571_Write hal (Some h) 0 w))
   \<and> (finite_value m e = DAC8571_REF_VOLTAGE
    \<longrightarrow> DAC8571_SetVoltage hal (Some h) (Finite m e) w
          = Some (DAC8571_Write hal (Some h) 65535 w))"
proof (intro conjI impI)
  assume a: "is_binary32 (Finite m e) \<and> 0 \<le> finite_value m e
      \<and> finite_value m e \<le> DAC8571_REF_VOLTAGE"
  then have m: "\<bar>m\<bar> < 2 ^ 24" and v0: "0 \<le> finite_value m e"
    and v1: "finite_value m e \<le> 5 / 2"
    by (simp_all add: is_binary32_def DAC8571_REF_VOLTAGE_def)
  from scale_floor [OF m v0 v1] a
  show "DAC8571_SetVoltage hal (Some h) (Finite m e) w =
          Some (DAC8571_Write hal (Some h)
                  (word_of_int \<lfloor>finite_value m e / DAC8571_REF_VOLTAGE * 65535\<rfloor>) w)"
    by (simp add: DAC8571_SetVoltage_def float_less_def float_greater_def)
  show "0 \<le> \<lfloor>finite_value m e / DAC8571_REF_VOLTAGE * 65535\<rfloor>"
    using v0 by (simp add: DAC8571_REF_VOLTAGE_def)
  have "finite_value m e / DAC8571_REF_VOLTAGE * 65535 \<le> 65535"
    using v1 by (simp add: DAC8571_REF_VOLTAGE_def)
  then show "\<lfloor>finite_value m e / DAC8571_REF_VOLTAGE * 65535\<rfloor> \<le> 65535"
    by (simp add: floor_le_iff)
next
  assume z: "finite_value m e = 0"
  have "\<not> DAC8571_REF_VOLTAGE < 0" by (simp add: DAC8571_REF_VOLTAGE_def)
  with z show "DAC8571_SetVoltage hal (Some h) (Finite m e) w
          = Some (DAC8571_Write hal (Some h) 0 w)"
    by (simp add: DAC8571_SetVoltage_def float_less_def float_greater_def scale_0)
next
  assume r: "finite_value m e = DAC8571_REF_VOLTAGE"
  have "double_to_uint16 (double_mul (double_div (5 / 2) DAC8571_REF_VOLTAGE) 65535)
      = Some 65535" unfolding scale_5 by (simp add: double_to_uint16_def)
  then have "double_to_uint16
      (double_mul (double_div DAC8571_REF_VOLTAGE DAC8571_REF_VOLTAGE) 65535) = Some 65535"
    by (simp add: DAC8571_REF_VOLTAGE_def)
  moreover have "\<not> DAC8571_REF_VOLTAGE < 0" by (simp add: DAC8571_REF_VOLTAGE_def)
  ultimately show "DAC8571_SetVoltage hal (Some h) (Finite m e) w
          = Some (DAC8571_Write hal (Some h) 65535 w)"
    using r by (simp add: DAC8571_SetVoltage_def float_less_def float_greater_def)
qed


theorem C2_SetVoltage_truncates_witness:
  "is_binary32 (Finite 5 (- 2)) \<and> finite_value 5 (- 2) = 5 / 4
   \<and> \<lfloor>finite_value 5 (- 2) / DAC8571_REF_VOLTAGE * 65535\<rfloor> = 32767
   \<and> DAC8571_SetVoltage (sim_hal all_ok) (Some bound_handle) (Finite 5 (- 2)) idle_bus
      = Some (HAL_OK, Some (bound_handle\<lparr>lastValue := 32767\<rparr>),
              \<lparr>reg_hi = 0x7F, reg_lo = 0xFF,
               trace = [Transmit (Some 1) 0x98 [0x10, 0x7F, 0xFF] 100]\<rparr>)
   \<and> DAC8571_SetVoltage (sim_hal all_ok) (Some bound_handle) (Finite 0 0) idle_bus
      = Some (DAC8571_Write (sim_hal all_ok) (Some bound_handle) 0 idle_bus)
   \<and> DAC8571_SetVoltage (sim_hal all_ok) (Some bound_handle) (Finite 5 (- 1)) idle_bus
      = Some (DAC8571_Write (sim_hal all_ok) (Some bound_handle) 65535 idle_bus)"
proof -
  have v: "finite_value 5 (- 2) = 5 / 4" "finite_value 0 0 = 0"
    "finite_value 5 (- 1) = DAC8571_REF_VOLTAGE"
    by (simp_all add: finite_value_def DAC8571_REF_VOLTAGE_def)
  have b: "is_binary32 (Finite 5 (- 2))" by (simp add: is_binary32_def)
  have f: "\<lfloor>finite_value 5 (- 2) / DAC8571_REF_VOLTAGE * 65535\<rfloor> = 32767"
    unfolding v DAC8571_REF_VOLTAGE_def by (rule floor_unique) simp_all
  have r: "(0 :: rat) \<le> 5 / 4" "(5 / 4 :: rat) \<le> DAC8571_REF_VOLTAGE"
    by (simp_all add: DAC8571_REF_VOLTAGE_def)
  have wr: "DAC8571_Write (sim_hal all_ok) (Some bound_handle) 32767 idle_bus
      = (HAL_OK, Some (bound_handle\<lparr>lastValue := 32767\<rparr>),
              \<lparr>reg_hi = 0x7F, reg_lo = 0xFF,
               trace = [Transmit (Some 1) 0x98 [0x10, 0x7F, 0xFF] 100]\<rparr>)"
    by (simp add: DAC8571_Write_def sim_hal_def sim_transmit_def all_ok_def idle_bus_def
        bound_handle_def DAC8571_consts)
  from C2_SetVoltage_truncates [of 5 "- 2" "sim_hal all_ok" bound_handle idle_bus] b f r wr
    C2_SetVoltage_truncates [of 0 0 "sim_hal all_ok" bound_handle idle_bus]
    C2_SetVoltage_truncates [of 5 "- 1" "sim_hal all_ok" bound_handle idle_bus]
  show ?thesis by (simp add: v)
qed

end
